theory Spec2Isabelle
  imports Complex_Main
begin

section \<open>The solar-system catalog of \<^verbatim>\<open>solar_system.py\<close>\<close>

text \<open>
  The module is a table of constants: the list \<^verbatim>\<open>SOLAR_SYSTEM_BODIES\<close> of body
  dictionaries, two comprehensions over it (\<^verbatim>\<open>DEFAULT_BODIES\<close>, \<^verbatim>\<open>PARENT_MAP\<close>)
  and four named constants.

  A body dictionary becomes a record. The keys \<^verbatim>\<open>id\<close>, \<^verbatim>\<open>name\<close> and
  \<^verbatim>\<open>parent\<close> are read by subscript in the module and are fields of the record
  (\<^verbatim>\<open>id\<close> is called \<open>body_id\<close>, since \<open>id\<close> is the identity function of HOL);
  Python's \<^verbatim>\<open>None\<close> for \<^verbatim>\<open>parent\<close> is \<open>None\<close>. Every other key may be
  missing from a dictionary, so its field is an option and \<open>None\<close> means that the key is
  absent. Python's integers are \<open>int\<close>. A float literal is the real number that its
  decimal text denotes (\<^verbatim>\<open>6.0e-5\<close> is \<open>6.0 / 10 ^ 5\<close>); the rounding of the
  literal to a binary64 value is not modelled. The integer literals that appear among the
  radii (\<^verbatim>\<open>71492\<close>) are read as reals like their float neighbours.
\<close>

record orbit =
  orb_a :: real
  orb_e :: real
  orb_i :: real
  orb_Omega :: real
  orb_omega :: real
  orb_M0 :: real

record body =
  body_id :: int
  name :: string
  parent :: "int option"
  streamed :: "bool option"
  j2 :: "real option"
  r_eq :: "real option"
  GM :: "real option"
  orientation_quat :: "real list option"
  pole_ra :: "real list option"
  pole_dec :: "real list option"
  pm :: "real list option"
  canonical_orbit :: "orbit option"

definition SOLAR_SYSTEM_BODIES :: "body list" where
  "SOLAR_SYSTEM_BODIES =
    [
      \<lparr>body_id = 0, name = ''Solar System Barycenter'', parent = None, streamed = Some False,
       j2 = None, r_eq = None, GM = None,
       orientation_quat = None,
       pole_ra = None, pole_dec = None,
       pm = None,
       canonical_orbit = None\<rparr>,
      \<lparr>body_id = 10, name = ''Sun'', parent = Some 0, streamed = Some True,
       j2 = None, r_eq = None, GM = None,
       orientation_quat = None,
       pole_ra = None, pole_dec = None,
       pm = None,
       canonical_orbit = None\<rparr>,
      \<lparr>body_id = 1, name = ''Mercury Barycenter'', parent = Some 0, streamed = Some True,
       j2 = None, r_eq = None, GM = None,
       orientation_quat = None,
       pole_ra = None, pole_dec = None,
       pm = None,
       canonical_orbit =
         Some \<lparr>orb_a = 57909050.0, orb_e = 0.2056, orb_i = 7.005,
         orb_Omega = 48.331, orb_omega = 29.124, orb_M0 = 174.796\<rparr>\<rparr>,
      \<lparr>body_id = 2, name = ''Venus Barycenter'', parent = Some 0, streamed = Some True,
       j2 = None, r_eq = None, GM = None,
       orientation_quat = None,
       pole_ra = None, pole_dec = None,
       pm = None,
       canonical_orbit =
         Some \<lparr>orb_a = 108208000.0, orb_e = 0.0067, orb_i = 3.3947,
         orb_Omega = 76.680, orb_omega = 54.884, orb_M0 = 50.416\<rparr>\<rparr>,
      \<lparr>body_id = 3, name = ''Earth Barycenter'', parent = Some 0, streamed = Some True,
       j2 = None, r_eq = None, GM = None,
       orientation_quat = None,
       pole_ra = None, pole_dec = None,
       pm = None,
       canonical_orbit =
         Some \<lparr>orb_a = 149598023.0, orb_e = 0.0167, orb_i = 0.000,
         orb_Omega = - 11.26064, orb_omega = 114.20783, orb_M0 = 358.617\<rparr>\<rparr>,
      \<lparr>body_id = 4, name = ''Mars Barycenter'', parent = Some 0, streamed = Some True,
       j2 = None, r_eq = None, GM = None,
       orientation_quat = None,
       pole_ra = None, pole_dec = None,
       pm = None,
       canonical_orbit =
         Some \<lparr>orb_a = 227939200.0, orb_e = 0.0935, orb_i = 1.850,
         orb_Omega = 49.558, orb_omega = 286.502, orb_M0 = 19.373\<rparr>\<rparr>,
      \<lparr>body_id = 5, name = ''Jupiter Barycenter'', parent = Some 0, streamed = Some True,
       j2 = None, r_eq = None, GM = None,
       orientation_quat = None,
       pole_ra = None, pole_dec = None,
       pm = None,
       canonical_orbit =
         Some \<lparr>orb_a = 778570000.0, orb_e = 0.0489, orb_i = 1.303,
         orb_Omega = 100.464, orb_omega = 273.867, orb_M0 = 20.020\<rparr>\<rparr>,
      \<lparr>body_id = 6, name = ''Saturn Barycenter'', parent = Some 0, streamed = Some True,
       j2 = None, r_eq = None, GM = None,
       orientation_quat = None,
       pole_ra = None, pole_dec = None,
       pm = None,
       canonical_orbit =
         Some \<lparr>orb_a = 1433530000.0, orb_e = 0.0565, orb_i = 2.485,
         orb_Omega = 113.665, orb_omega = 339.392, orb_M0 = 317.020\<rparr>\<rparr>,
      \<lparr>body_id = 7, name = ''Uranus Barycenter'', parent = Some 0, streamed = Some True,
       j2 = None, r_eq = None, GM = None,
       orientation_quat = None,
       pole_ra = None, pole_dec = None,
       pm = None,
       canonical_orbit =
         Some \<lparr>orb_a = 2875040000.0, orb_e = 0.0463, orb_i = 0.773,
         orb_Omega = 74.006, orb_omega = 96.998, orb_M0 = 142.2386\<rparr>\<rparr>,
      \<lparr>body_id = 8, name = ''Neptune Barycenter'', parent = Some 0, streamed = Some True,
       j2 = None, r_eq = None, GM = None,
       orientation_quat = None,
       pole_ra = None, pole_dec = None,
       pm = None,
       canonical_orbit =
         Some \<lparr>orb_a = 4504450000.0, orb_e = 0.0097, orb_i = 1.770,
         orb_Omega = 131.784, orb_omega = 273.187, orb_M0 = 256.228\<rparr>\<rparr>,
      \<lparr>body_id = 9, name = ''Pluto System Barycenter'', parent = Some 0, streamed = Some True,
       j2 = None, r_eq = None, GM = None,
       orientation_quat = None,
       pole_ra = None, pole_dec = None,
       pm = None,
       canonical_orbit =
         Some \<lparr>orb_a = 5906440628.0, orb_e = 0.2488, orb_i = 17.16,
         orb_Omega = 110.299, orb_omega = 113.834, orb_M0 = 14.53\<rparr>\<rparr>,
      \<lparr>body_id = 199, name = ''Mercury'', parent = Some 1, streamed = Some True,
       j2 = Some (6.0 / 10 ^ 5), r_eq = Some 2439.7, GM = Some 22031.86855,
       orientation_quat = None,
       pole_ra = None, pole_dec = None,
       pm = None,
       canonical_orbit =
         Some \<lparr>orb_a = 57909050.0, orb_e = 0.2056, orb_i = 7.005,
         orb_Omega = 48.331, orb_omega = 29.124, orb_M0 = 174.796\<rparr>\<rparr>,
      \<lparr>body_id = 299, name = ''Venus'', parent = Some 2, streamed = Some True,
       j2 = Some (4.458 / 10 ^ 6), r_eq = Some 6051.8, GM = Some 324858.592,
       orientation_quat = None,
       pole_ra = None, pole_dec = None,
       pm = None,
       canonical_orbit =
         Some \<lparr>orb_a = 108208000.0, orb_e = 0.0067, orb_i = 3.3947,
         orb_Omega = 76.680, orb_omega = 54.884, orb_M0 = 50.416\<rparr>\<rparr>,
      \<lparr>body_id = 399, name = ''Earth'', parent = Some 3, streamed = Some True,
       j2 = Some (1.08262668 / 10 ^ 3), r_eq = Some 6378.1366, GM = Some 398600.435507,
       orientation_quat = None,
       pole_ra = None, pole_dec = None,
       pm = None,
       canonical_orbit =
         Some \<lparr>orb_a = 149598023.0, orb_e = 0.0167, orb_i = 0.000,
         orb_Omega = - 11.26064, orb_omega = 114.20783, orb_M0 = 358.617\<rparr>\<rparr>,
      \<lparr>body_id = 499, name = ''Mars'', parent = Some 4, streamed = Some True,
       j2 = Some (1.96045 / 10 ^ 3), r_eq = Some 3396.19, GM = Some 42828.375214,
       orientation_quat = None,
       pole_ra = None, pole_dec = None,
       pm = None,
       canonical_orbit =
         Some \<lparr>orb_a = 227939200.0, orb_e = 0.0935, orb_i = 1.850,
         orb_Omega = 49.558, orb_omega = 286.502, orb_M0 = 19.373\<rparr>\<rparr>,
      \<lparr>body_id = 599, name = ''Jupiter'', parent = Some 5, streamed = Some True,
       j2 = Some 0.014696, r_eq = Some 71492, GM = Some 126686531.9,
       orientation_quat = None,
       pole_ra = None, pole_dec = None,
       pm = None,
       canonical_orbit =
         Some \<lparr>orb_a = 778570000.0, orb_e = 0.0489, orb_i = 1.303,
         orb_Omega = 100.464, orb_omega = 273.867, orb_M0 = 20.020\<rparr>\<rparr>,
      \<lparr>body_id = 699, name = ''Saturn'', parent = Some 6, streamed = Some True,
       j2 = Some 0.016298, r_eq = Some 60268, GM = Some 37931207.8,
       orientation_quat = None,
       pole_ra = None, pole_dec = None,
       pm = None,
       canonical_orbit =
         Some \<lparr>orb_a = 1433530000.0, orb_e = 0.0565, orb_i = 2.485,
         orb_Omega = 113.665, orb_omega = 339.392, orb_M0 = 317.020\<rparr>\<rparr>,
      \<lparr>body_id = 799, name = ''Uranus'', parent = Some 7, streamed = Some True,
       j2 = None, r_eq = Some 25559.0, GM = Some 5793951.3,
       orientation_quat = None,
       pole_ra = None, pole_dec = None,
       pm = None,
       canonical_orbit =
         Some \<lparr>orb_a = 2875040000.0, orb_e = 0.0463, orb_i = 0.773,
         orb_Omega = 74.006, orb_omega = 96.998, orb_M0 = 142.2386\<rparr>\<rparr>,
      \<lparr>body_id = 899, name = ''Neptune'', parent = Some 8, streamed = Some True,
       j2 = None, r_eq = Some 24764.0, GM = Some 6835103.1,
       orientation_quat = None,
       pole_ra = None, pole_dec = None,
       pm = None,
       canonical_orbit =
         Some \<lparr>orb_a = 4504450000.0, orb_e = 0.0097, orb_i = 1.770,
         orb_Omega = 131.784, orb_omega = 273.187, orb_M0 = 256.228\<rparr>\<rparr>,
      \<lparr>body_id = 999, name = ''Pluto'', parent = Some 9, streamed = Some True,
       j2 = None, r_eq = Some 1188.3, GM = Some 869.613817,
       orientation_quat = None,
       pole_ra = None, pole_dec = None,
       pm = None,
       canonical_orbit =
         Some \<lparr>orb_a = 5906440628.0, orb_e = 0.2488, orb_i = 17.16,
         orb_Omega = 110.299, orb_omega = 113.834, orb_M0 = 14.53\<rparr>\<rparr>,
      \<lparr>body_id = 301, name = ''Moon'', parent = Some 3, streamed = Some True,
       j2 = Some (2.032 / 10 ^ 4), r_eq = Some 1737.4, GM = Some 4902.800066,
       orientation_quat = Some [0.3186675622944306, 0.9240892132462319, 0.19537822808060934, - 0.0796081572162473],
       pole_ra = Some [269.9949, 0.0031, 0.0], pole_dec = Some [66.5392, 0.0130, 0.0],
       pm = Some [38.3213, 13.17635815, - (1.4 / 10 ^ 12)],
       canonical_orbit =
         Some \<lparr>orb_a = 384400.0, orb_e = 0.0549, orb_i = 5.145,
         orb_Omega = 125.08, orb_omega = 318.15, orb_M0 = 115.3654\<rparr>\<rparr>,
      \<lparr>body_id = 401, name = ''Phobos'', parent = Some 4, streamed = Some True,
       j2 = Some 0.0, r_eq = Some 11.2667, GM = Some 0.0007112,
       orientation_quat = Some [0.6308383566747584, 0.7115274160209963, 0.3075094984340903, 0.034779482043131506],
       pole_ra = Some [317.67071657, - 0.10844326, 0.0], pole_dec = Some [52.88627266, - 0.06134706, 0.0],
       pm = Some [35.18774440, 1128.84475928, 0.0],
       canonical_orbit =
         Some \<lparr>orb_a = 9376.0, orb_e = 0.0151, orb_i = 1.075,
         orb_Omega = 49.2, orb_omega = 150.057, orb_M0 = 177.4\<rparr>\<rparr>,
      \<lparr>body_id = 402, name = ''Deimos'', parent = Some 4, streamed = Some True,
       j2 = Some 0.0, r_eq = Some 6.2, GM = Some 0.0000985,
       orientation_quat = Some [0.8454450655355805, 0.42626836332308543, 0.3119031808153065, - 0.07895776965372207],
       pole_ra = Some [316.65705808, - 0.10518014, 0.0], pole_dec = Some [53.50992033, - 0.05979094, 0.0],
       pm = Some [79.39932954, 285.16188899, 0.0],
       canonical_orbit =
         Some \<lparr>orb_a = 23463.2, orb_e = 0.00033, orb_i = 1.788,
         orb_Omega = 316.65, orb_omega = 260.729, orb_M0 = 53.2\<rparr>\<rparr>,
      \<lparr>body_id = 501, name = ''Io'', parent = Some 5, streamed = Some True,
       j2 = Some 0.0, r_eq = Some 1821.6, GM = Some 595.6,
       orientation_quat = Some [- 0.9627925031965429, 0.15620667287302778, 0.043054086617703644, 0.21627856288589808],
       pole_ra = Some [268.05, - 0.009, 0.0], pole_dec = Some [64.50, 0.003, 0.0],
       pm = Some [200.39, 203.4889538, 0.0],
       canonical_orbit =
         Some \<lparr>orb_a = 421700.0, orb_e = 0.0041, orb_i = 0.036,
         orb_Omega = 43.977, orb_omega = 84.129, orb_M0 = 171.016\<rparr>\<rparr>,
      \<lparr>body_id = 502, name = ''Europa'', parent = Some 5, streamed = Some True,
       j2 = Some 0.0, r_eq = Some 1560.8, GM = Some 320.0,
       orientation_quat = Some [0.2862225966304867, 0.9333206784518087, 0.20494819207692228, - 0.07060718742988059],
       pole_ra = Some [268.08, - 0.009, 0.0], pole_dec = Some [64.51, 0.003, 0.0],
       pm = Some [36.022, 101.3747235, 0.0],
       canonical_orbit =
         Some \<lparr>orb_a = 671034.0, orb_e = 0.009, orb_i = 0.465,
         orb_Omega = 219.106, orb_omega = 88.970, orb_M0 = 29.298\<rparr>\<rparr>,
      \<lparr>body_id = 503, name = ''Ganymede'', parent = Some 5, streamed = Some True,
       j2 = Some 0.0, r_eq = Some 2634.1, GM = Some 988.7,
       orientation_quat = Some [0.3518206607032618, 0.9095464313346583, 0.2041922883141911, - 0.08516467191108519],
       pole_ra = Some [268.20, - 0.009, 0.0], pole_dec = Some [64.57, 0.003, 0.0],
       pm = Some [44.064, 50.3176081, 0.0],
       canonical_orbit =
         Some \<lparr>orb_a = 1070412.0, orb_e = 0.0013, orb_i = 0.177,
         orb_Omega = 63.552, orb_omega = 192.417, orb_M0 = 192.417\<rparr>\<rparr>,
      \<lparr>body_id = 504, name = ''Callisto'', parent = Some 5, streamed = Some True,
       j2 = Some 0.0, r_eq = Some 2410.3, GM = Some 717.0,
       orientation_quat = Some [- 0.7572824467695023, 0.6152217280724471, 0.14340098285830222, 0.16571565779255987],
       pole_ra = Some [268.72, - 0.009, 0.0], pole_dec = Some [64.83, 0.003, 0.0],
       pm = Some [259.51, 21.5710715, 0.0],
       canonical_orbit =
         Some \<lparr>orb_a = 1882709.0, orb_e = 0.007, orb_i = 0.192,
         orb_Omega = 298.848, orb_omega = 52.643, orb_M0 = 52.643\<rparr>\<rparr>,
      \<lparr>body_id = 601, name = ''Mimas'', parent = Some 6, streamed = Some True,
       j2 = Some 0.0, r_eq = Some 198.2, GM = Some 2.502,
       orientation_quat = Some [0.9230995744431174, 0.38212717482503544, 0.019096998939105683, 0.0387466457218241],
       pole_ra = Some [40.66, - 0.036, 0.0], pole_dec = Some [83.52, - 0.004, 0.0],
       pm = Some [333.46, 381.9945550, 0.0],
       canonical_orbit =
         Some \<lparr>orb_a = 185539.0, orb_e = 0.0196, orb_i = 1.574,
         orb_Omega = 66.2, orb_omega = 160.4, orb_M0 = 275.3\<rparr>\<rparr>,
      \<lparr>body_id = 602, name = ''Enceladus'', parent = Some 6, streamed = Some True,
       j2 = Some 0.0, r_eq = Some 252.1, GM = Some 7.210,
       orientation_quat = Some [0.9288664636898875, 0.36607751623426327, 0.0263856632356688, 0.049981411700848105],
       pole_ra = Some [40.66, - 0.036, 0.0], pole_dec = Some [83.52, - 0.004, 0.0],
       pm = Some [6.32, 262.7318996, 0.0],
       canonical_orbit =
         Some \<lparr>orb_a = 238042.0, orb_e = 0.0047, orb_i = 0.009,
         orb_Omega = 0.0, orb_omega = 119.5, orb_M0 = 57.0\<rparr>\<rparr>,
      \<lparr>body_id = 603, name = ''Tethys'', parent = Some 6, streamed = Some True,
       j2 = Some 0.0, r_eq = Some 531.1, GM = Some 41.21,
       orientation_quat = Some [0.9318940517031924, 0.3575191144733003, 0.03662851343840426, 0.04911121246444622],
       pole_ra = Some [40.66, - 0.036, 0.0], pole_dec = Some [83.52, - 0.004, 0.0],
       pm = Some [8.95, 190.6979085, 0.0],
       canonical_orbit =
         Some \<lparr>orb_a = 294672.0, orb_e = 0.0001, orb_i = 1.091,
         orb_Omega = 273.0, orb_omega = 335.3, orb_M0 = 0.0\<rparr>\<rparr>,
      \<lparr>body_id = 604, name = ''Dione'', parent = Some 6, streamed = Some True,
       j2 = Some 0.0, r_eq = Some 561.4, GM = Some 73.116,
       orientation_quat = Some [0.8983481011005575, 0.43563326836804733, 0.022509571322388757, 0.05184268452615175],
       pole_ra = Some [40.66, - 0.036, 0.0], pole_dec = Some [83.52, - 0.004, 0.0],
       pm = Some [357.6, 131.5349316, 0.0],
       canonical_orbit =
         Some \<lparr>orb_a = 377415.0, orb_e = 0.0022, orb_i = 0.028,
         orb_Omega = 0.0, orb_omega = 116.0, orb_M0 = 212.0\<rparr>\<rparr>,
      \<lparr>body_id = 605, name = ''Rhea'', parent = Some 6, streamed = Some True,
       j2 = Some 0.0, r_eq = Some 763.8, GM = Some 153.94,
       orientation_quat = Some [0.04819756263171842, 0.9970816099735007, - 0.03548242614950518, 0.04739467737582312],
       pole_ra = Some [40.38, - 0.036, 0.0], pole_dec = Some [83.55, - 0.004, 0.0],
       pm = Some [235.16, 79.6900478, 0.0],
       canonical_orbit =
         Some \<lparr>orb_a = 527108.0, orb_e = 0.001, orb_i = 0.345,
         orb_Omega = 133.7, orb_omega = 44.3, orb_M0 = 31.5\<rparr>\<rparr>,
      \<lparr>body_id = 606, name = ''Titan'', parent = Some 6, streamed = Some True,
       j2 = Some 0.0, r_eq = Some 2574.7, GM = Some 8978.0,
       orientation_quat = Some [- 0.3734396870113086, 0.9258818003502802, - 0.05035007964612972, 0.027396376122554734],
       pole_ra = Some [39.4827, 0.0, 0.0], pole_dec = Some [83.4279, 0.0, 0.0],
       pm = Some [186.5855, 22.5769768, 0.0],
       canonical_orbit =
         Some \<lparr>orb_a = 1221870.0, orb_e = 0.0288, orb_i = 0.34854,
         orb_Omega = 78.6, orb_omega = 78.3, orb_M0 = 11.7\<rparr>\<rparr>,
      \<lparr>body_id = 608, name = ''Iapetus'', parent = Some 6, streamed = Some True,
       j2 = Some 0.0, r_eq = Some 734.5, GM = Some 120.5,
       orientation_quat = Some [0.3662745576368781, 0.9213433421007585, 0.11660036388932458, 0.05808398691026053],
       pole_ra = Some [318.16, - 3.949, 0.0], pole_dec = Some [75.03, - 1.143, 0.0],
       pm = Some [355.2, 4.5379572, 0.0],
       canonical_orbit =
         Some \<lparr>orb_a = 3560820.0, orb_e = 0.0283, orb_i = 15.47,
         orb_Omega = 86.5, orb_omega = 254.5, orb_M0 = 74.8\<rparr>\<rparr>,
      \<lparr>body_id = 701, name = ''Ariel'', parent = Some 7, streamed = Some True,
       j2 = Some 0.0, r_eq = Some 578.9, GM = Some 86.0,
       orientation_quat = Some [0.5781932973945025, 0.191729684226664, 0.07649565212061894, - 0.7893545808070397],
       pole_ra = Some [257.43, 0.0, 0.0], pole_dec = Some [- 15.10, 0.0, 0.0],
       pm = Some [156.22, - 142.8356681, 0.0],
       canonical_orbit =
         Some \<lparr>orb_a = 190900.0, orb_e = 0.001, orb_i = 0.0,
         orb_Omega = 0.0, orb_omega = 83.3, orb_M0 = 119.8\<rparr>\<rparr>,
      \<lparr>body_id = 702, name = ''Umbriel'', parent = Some 7, streamed = Some True,
       j2 = Some 0.0, r_eq = Some 584.7, GM = Some 81.5,
       orientation_quat = Some [0.4501417420706476, 0.4100905667125323, 0.39181002197012754, - 0.6896977931114213],
       pole_ra = Some [257.43, 0.0, 0.0], pole_dec = Some [- 15.10, 0.0, 0.0],
       pm = Some [108.05, - 86.8688923, 0.0],
       canonical_orbit =
         Some \<lparr>orb_a = 266000.0, orb_e = 0.004, orb_i = 0.1,
         orb_Omega = 195.5, orb_omega = 157.5, orb_M0 = 258.3\<rparr>\<rparr>,
      \<lparr>body_id = 703, name = ''Titania'', parent = Some 7, streamed = Some True,
       j2 = Some 0.0, r_eq = Some 788.9, GM = Some 228.2,
       orientation_quat = Some [0.32791612117152835, 0.5142453564688234, 0.5585107863781351, - 0.5622174244234606],
       pole_ra = Some [257.43, 0.0, 0.0], pole_dec = Some [- 15.10, 0.0, 0.0],
       pm = Some [77.74, - 41.3514316, 0.0],
       canonical_orbit =
         Some \<lparr>orb_a = 436300.0, orb_e = 0.001, orb_i = 0.1,
         orb_Omega = 26.4, orb_omega = 202.0, orb_M0 = 53.2\<rparr>\<rparr>,
      \<lparr>body_id = 704, name = ''Oberon'', parent = Some 7, streamed = Some True,
       j2 = Some 0.0, r_eq = Some 761.4, GM = Some 192.4,
       orientation_quat = Some [- 0.03179395978929699, 0.6070279410001568, 0.7826245002334988, - 0.1341831382860504],
       pole_ra = Some [257.43, 0.0, 0.0], pole_dec = Some [- 15.10, 0.0, 0.0],
       pm = Some [6.77, - 26.7394932, 0.0],
       canonical_orbit =
         Some \<lparr>orb_a = 583400.0, orb_e = 0.001, orb_i = 0.1,
         orb_Omega = 30.5, orb_omega = 182.4, orb_M0 = 139.7\<rparr>\<rparr>,
      \<lparr>body_id = 705, name = ''Miranda'', parent = Some 7, streamed = Some True,
       j2 = Some 0.0, r_eq = Some 235.8, GM = Some 4.4,
       orientation_quat = Some [0.1269439866585823, 0.5885443922397523, 0.7482859130952207, - 0.27851196541193374],
       pole_ra = Some [257.43, 0.0, 0.0], pole_dec = Some [- 15.08, 0.0, 0.0],
       pm = Some [30.70, - 254.6906892, 0.0],
       canonical_orbit =
         Some \<lparr>orb_a = 129900.0, orb_e = 0.001, orb_i = 4.4,
         orb_Omega = 100.7, orb_omega = 155.6, orb_M0 = 72.4\<rparr>\<rparr>,
      \<lparr>body_id = 801, name = ''Triton'', parent = Some 8, streamed = Some True,
       j2 = Some 0.0, r_eq = Some 1353.4, GM = Some 1427.6,
       orientation_quat = Some [- 0.24357406144561938, 0.78368286204414, 0.39896516331806564, 0.4090716890567964],
       pole_ra = Some [299.36, 0.0, 0.0], pole_dec = Some [41.17, 0.0, 0.0],
       pm = Some [296.53, - 61.2572637, 0.0],
       canonical_orbit =
         Some \<lparr>orb_a = 354800.0, orb_e = 0.000, orb_i = 157.3,
         orb_Omega = 178.1, orb_omega = 0.0, orb_M0 = 63.0\<rparr>\<rparr>,
      \<lparr>body_id = 802, name = ''Proteus'', parent = Some 8, streamed = Some True,
       j2 = Some 0.0, r_eq = Some 210, GM = Some 0.105,
       orientation_quat = Some [0.8027893751159789, 0.4391895681536065, 0.3416179806521816, - 0.2143336131386546],
       pole_ra = None, pole_dec = None,
       pm = None,
       canonical_orbit =
         Some \<lparr>orb_a = 117600.0, orb_e = 0.000, orb_i = 0.0,
         orb_Omega = 0.0, orb_omega = 0.0, orb_M0 = 276.8\<rparr>\<rparr>,
      \<lparr>body_id = 803, name = ''Nereid'', parent = Some 8, streamed = Some True,
       j2 = Some 0.0, r_eq = Some 170, GM = Some 0.021,
       orientation_quat = Some [0.0, 0.0, 0.0, 1.0],
       pole_ra = Some [299.36, 0.0, 0.0], pole_dec = Some [43.36, 0.0, 0.0],
       pm = Some [254.06, 1222.8441209, 0.0],
       canonical_orbit =
         Some \<lparr>orb_a = 5513900.0, orb_e = 0.751, orb_i = 5.1,
         orb_Omega = 319.5, orb_omega = 296.8, orb_M0 = 318.5\<rparr>\<rparr>,
      \<lparr>body_id = 901, name = ''Charon'', parent = Some 9, streamed = Some True,
       j2 = Some 0.0, r_eq = Some 606.0, GM = Some 101.4,
       orientation_quat = Some [0.7071, 0.0, 0.7071, 0.0],
       pole_ra = None, pole_dec = None,
       pm = None,
       canonical_orbit =
         Some \<lparr>orb_a = 19591.4, orb_e = 0.000, orb_i = 96.145,
         orb_Omega = 223.046, orb_omega = 0.0, orb_M0 = 0.0\<rparr>\<rparr>,
      \<lparr>body_id = 902, name = ''Nix'', parent = Some 9, streamed = Some True,
       j2 = Some 0.0, r_eq = Some 25.0, GM = Some 0.003,
       orientation_quat = Some [1.0, 0.0, 0.0, 0.0],
       pole_ra = None, pole_dec = None,
       pm = None,
       canonical_orbit =
         Some \<lparr>orb_a = 48694.0, orb_e = 0.002, orb_i = 96.2,
         orb_Omega = 223.1, orb_omega = 0.0, orb_M0 = 0.0\<rparr>\<rparr>,
      \<lparr>body_id = 903, name = ''Hydra'', parent = Some 9, streamed = Some True,
       j2 = Some 0.0, r_eq = Some 32.5, GM = Some 0.005,
       orientation_quat = Some [1.0, 0.0, 0.0, 0.0],
       pole_ra = None, pole_dec = None,
       pm = None,
       canonical_orbit =
         Some \<lparr>orb_a = 64738.0, orb_e = 0.005, orb_i = 96.4,
         orb_Omega = 223.2, orb_omega = 0.0, orb_M0 = 0.0\<rparr>\<rparr>,
      \<lparr>body_id = 904, name = ''Kerberos'', parent = Some 9, streamed = Some True,
       j2 = Some 0.0, r_eq = Some 12.0, GM = Some 0.001,
       orientation_quat = Some [1.0, 0.0, 0.0, 0.0],
       pole_ra = None, pole_dec = None,
       pm = None,
       canonical_orbit =
         Some \<lparr>orb_a = 57783.0, orb_e = 0.003, orb_i = 96.3,
         orb_Omega = 223.15, orb_omega = 0.0, orb_M0 = 0.0\<rparr>\<rparr>,
      \<lparr>body_id = 905, name = ''Styx'', parent = Some 9, streamed = Some True,
       j2 = Some 0.0, r_eq = Some 8.0, GM = Some 0.0005,
       orientation_quat = Some [1.0, 0.0, 0.0, 0.0],
       pole_ra = None, pole_dec = None,
       pm = None,
       canonical_orbit =
         Some \<lparr>orb_a = 42656.0, orb_e = 0.005, orb_i = 96.1,
         orb_Omega = 223.0, orb_omega = 0.0, orb_M0 = 0.0\<rparr>\<rparr>
    ]"

text \<open>
  \<^verbatim>\<open>DEFAULT_BODIES = [body["id"] for body in SOLAR_SYSTEM_BODIES
      if body.get("parent") is not None or body.get("id") == 10]\<close>
\<close>

definition DEFAULT_BODIES :: "int list" where
  "DEFAULT_BODIES =
     [body_id body. body \<leftarrow> SOLAR_SYSTEM_BODIES, parent body \<noteq> None \<or> body_id body = 10]"

text \<open>
  \<^verbatim>\<open>PARENT_MAP = {body["id"]: body["parent"] for body in SOLAR_SYSTEM_BODIES
      if body["parent"] is not None}\<close>
  The dictionary is built record by record, a later record overwriting the entry of an
  earlier one with the same id.
\<close>

definition PARENT_MAP_step :: "(int \<rightharpoonup> int) \<Rightarrow> body \<Rightarrow> (int \<rightharpoonup> int)" where
  "PARENT_MAP_step m body =
     (case parent body of None \<Rightarrow> m | Some p \<Rightarrow> m(body_id body \<mapsto> p))"

definition PARENT_MAP_of :: "body list \<Rightarrow> (int \<rightharpoonup> int)" where
  "PARENT_MAP_of bodies = foldl PARENT_MAP_step Map.empty bodies"

definition PARENT_MAP :: "int \<rightharpoonup> int" where
  "PARENT_MAP = PARENT_MAP_of SOLAR_SYSTEM_BODIES"

definition SECONDS_PER_DAY :: real where
  "SECONDS_PER_DAY = 86400.0"

definition DEFAULT_EPOCH :: string where
  "DEFAULT_EPOCH = ''2025-05-11T00:00:00''"

definition DEFAULT_DRAG_CUTOFF :: real where
  "DEFAULT_DRAG_CUTOFF = 500 * 10 ^ 3"

definition DEFAULT_FRAME :: string where
  "DEFAULT_FRAME = ''ECLIPJ2000''"

text \<open>
  The parent links of the catalog as a relation: \<open>(c, p)\<close> is a link when
  \<^verbatim>\<open>PARENT_MAP[c] == p\<close>.
\<close>

definition parent_links :: "(int \<times> int) set" where
  "parent_links = {(c, p). PARENT_MAP c = Some p}"

text \<open>The two columns of the catalog that carry the hierarchy.\<close>

definition hierarchy_rows :: "body list \<Rightarrow> (int \<times> int option) list" where
  "hierarchy_rows bodies = map (\<lambda>body. (body_id body, parent body)) bodies"


section \<open>The components that the specification places around the catalog\<close>

text \<open>
  The module holds data only. The catalog loader, the hierarchy index, the Kepler
  propagator and the fallback resolver are described by the specification and have no
  code in the module; each definition below is written from the specification's words and
  says so. Angles are radians and all arithmetic is over the reals.
\<close>

text \<open>Modelled from the spec: the four causes of a \<^verbatim>\<open>CatalogError\<close> named in the
  contract of \<^verbatim>\<open>BodyCatalog.load\<close> (section 4.1); the loader is not in the module.\<close>

datatype catalog_defect = DuplicateId | DanglingParent | RootCount | ElementsOutOfRange

text \<open>Modelled from the spec: the error taxonomy of section 7, which is not in the module.
  A \<^verbatim>\<open>NumericalError\<close> carries the last residual and the iteration count.\<close>

datatype error =
    CatalogError catalog_defect
  | CycleError
  | NumericalError real nat
  | UnresolvedBodyError int

text \<open>Modelled from the spec: invariant 4 of section 3, \<open>a > 0\<close> and \<open>0 \<le> e < 1\<close>, the
  range test that \<^verbatim>\<open>BodyCatalog.load\<close> applies to a \<^verbatim>\<open>canonical_orbit\<close>; the
  loader is not in the module.\<close>

definition elements_in_range :: "orbit \<Rightarrow> bool" where
  "elements_in_range el = (0 < orb_a el \<and> 0 \<le> orb_e el \<and> orb_e el < 1)"

text \<open>Modelled from the spec: \<^verbatim>\<open>BodyCatalog.load(records)\<close> of section 4.1, which is
  not in the module. It fails with a \<^verbatim>\<open>CatalogError\<close> on a duplicate id, a dangling
  parent reference, multiple or zero roots, or a \<^verbatim>\<open>canonical_orbit\<close> with \<open>a\<close> or
  \<open>e\<close> out of range, and returns the records as the catalog otherwise. The defects are
  tested in the order in which the specification lists them.\<close>

definition load :: "body list \<Rightarrow> error + body list" where
  "load records =
     (if \<not> distinct (map body_id records) then Inl (CatalogError DuplicateId)
      else if list_ex (\<lambda>body. case parent body of None \<Rightarrow> False
                               | Some p \<Rightarrow> p \<notin> set (map body_id records)) records
        then Inl (CatalogError DanglingParent)
      else if length (filter (\<lambda>body. parent body = None) records) \<noteq> 1
        then Inl (CatalogError RootCount)
      else if list_ex (\<lambda>body. case canonical_orbit body of None \<Rightarrow> False
                               | Some el \<Rightarrow> \<not> elements_in_range el) records
        then Inl (CatalogError ElementsOutOfRange)
      else Inr records)"

text \<open>Modelled from the spec: \<^verbatim>\<open>root()\<close> of the catalog that \<^verbatim>\<open>load\<close> returns
  (section 4.1), which is not in the module: the body without a parent. On a list that
  \<^verbatim>\<open>load\<close> would reject for its root count there is no such body, and the result is
  \<open>None\<close>.\<close>

definition root_body :: "body list \<Rightarrow> body option" where
  "root_body catalog =
     (case filter (\<lambda>body. parent body = None) catalog of [r] \<Rightarrow> Some r | _ \<Rightarrow> None)"

text \<open>Modelled from the spec: \<^verbatim>\<open>HierarchyIndex.parent_of(id)\<close> of section 4.2, which
  is not in the module: the parent of the body with that id, absent when the catalog has
  no such body or the body has no parent.\<close>

definition parent_of :: "body list \<Rightarrow> int \<Rightarrow> int option" where
  "parent_of catalog k =
     (case find (\<lambda>body. body_id body = k) catalog of None \<Rightarrow> None | Some body \<Rightarrow> parent body)"

subsection \<open>KeplerPropagator\<close>

type_synonym vec3 = "real \<times> real \<times> real"

text \<open>Modelled from the spec: the tolerance \<open>\<epsilon> = 1e-10\<close> radians of step 3 of the
  propagation algorithm (section 4.3), which is not in the module.\<close>

definition eps :: real where
  "eps = 1 / 10 ^ 10"

text \<open>Modelled from the spec: the fixed iteration cap, 50, of step 3 of section 4.3, which is
  not in the module.\<close>

definition iteration_cap :: nat where
  "iteration_cap = 50"

text \<open>Modelled from the spec: step 1 of section 4.3, the mean motion from the semi-major
  axis and the gravitational parameter that the caller supplies, \<open>n = \<surd>(gm / a\<^sup>3)\<close>; the
  propagator is not in the module.\<close>

definition mean_motion :: "real \<Rightarrow> real \<Rightarrow> real" where
  "mean_motion gm a = sqrt (gm / a ^ 3)"

text \<open>Modelled from the spec: the normalisation of an angle to \<open>[0, 2\<pi>)\<close> of step 2 of
  section 4.3; the propagator is not in the module.\<close>

definition normalize_angle :: "real \<Rightarrow> real" where
  "normalize_angle x = x - 2 * pi * of_int \<lfloor>x / (2 * pi)\<rfloor>"

text \<open>Modelled from the spec: step 2 of section 4.3, \<open>M = M0 + n\<cdot>dt\<close> normalised to
  \<open>[0, 2\<pi>)\<close>; the propagator is not in the module.\<close>

definition mean_anomaly :: "orbit \<Rightarrow> real \<Rightarrow> real \<Rightarrow> real" where
  "mean_anomaly el gm dt = normalize_angle (orb_M0 el + mean_motion gm (orb_a el) * dt)"

text \<open>Modelled from the spec: the residual \<open>E - e\<cdot>sin E - M\<close> of Kepler's equation (step 3
  of section 4.3); the propagator is not in the module.\<close>

definition kepler_residual :: "real \<Rightarrow> real \<Rightarrow> real \<Rightarrow> real" where
  "kepler_residual e M E = E - e * sin E - M"

text \<open>Modelled from the spec: one Newton-Raphson step on Kepler's equation (step 3 of
  section 4.3), the residual divided by its derivative \<open>1 - e\<cdot>cos E\<close>; the propagator is
  not in the module.\<close>

definition newton_step :: "real \<Rightarrow> real \<Rightarrow> real \<Rightarrow> real" where
  "newton_step e M E = E - kepler_residual e M E / (1 - e * cos E)"

text \<open>Modelled from the spec: the iteration of step 3 of section 4.3, which is not in the
  module. \<open>newton e M n k E\<close> has done \<open>k\<close> steps, stands at \<open>E\<close> and may do \<open>n\<close> more. It
  stops with \<open>E\<close> as soon as the residual is below \<open>\<epsilon>\<close>; when no step is left and the
  residual is still not below \<open>\<epsilon>\<close> it is a \<^verbatim>\<open>NumericalError\<close> with the last residual
  and the iteration count.\<close>

fun newton :: "real \<Rightarrow> real \<Rightarrow> nat \<Rightarrow> nat \<Rightarrow> real \<Rightarrow> error + real \<times> nat" where
  "newton e M 0 k E =
     (if \<bar>kepler_residual e M E\<bar> < eps then Inr (E, k)
      else Inl (NumericalError (kepler_residual e M E) k))"
| "newton e M (Suc n) k E =
     (if \<bar>kepler_residual e M E\<bar> < eps then Inr (E, k)
      else newton e M n (Suc k) (newton_step e M E))"

text \<open>Modelled from the spec: the Kepler solve of steps 3 and 6 of section 4.3, which is not
  in the module. With \<open>e = 0\<close> the solve is short-circuited, \<open>E = M\<close> with no iteration;
  otherwise Newton-Raphson is seeded with \<open>E0 = M\<close> and capped. The result is the eccentric
  anomaly with the number of steps taken. The seed \<open>M + e\<close>, which the specification
  allows as a refinement for high eccentricity without saying from which eccentricity on,
  is not taken.\<close>

definition solve_kepler :: "real \<Rightarrow> real \<Rightarrow> error + real \<times> nat" where
  "solve_kepler e M = (if e = 0 then Inr (M, 0) else newton e M iteration_cap 0 M)"

text \<open>Modelled from the spec: the two-argument arctangent used by the standard relation
  between eccentric and true anomaly (step 4 of section 4.3); the propagator is not in the
  module.\<close>

definition atan2 :: "real \<Rightarrow> real \<Rightarrow> real" where
  "atan2 y x =
     (if 0 < x then arctan (y / x)
      else if x < 0 then (if 0 \<le> y then arctan (y / x) + pi else arctan (y / x) - pi)
      else if 0 < y then pi / 2
      else if y < 0 then - (pi / 2)
      else 0)"

text \<open>Modelled from the spec: step 4 of section 4.3, the true anomaly from the eccentric
  anomaly by the standard elliptical relation
  \<open>\<nu> = 2\<cdot>atan2(\<surd>(1 + e)\<cdot>sin(E/2), \<surd>(1 - e)\<cdot>cos(E/2))\<close>; the propagator is not in the
  module.\<close>

definition true_anomaly :: "real \<Rightarrow> real \<Rightarrow> real" where
  "true_anomaly e E = 2 * atan2 (sqrt (1 + e) * sin (E / 2)) (sqrt (1 - e) * cos (E / 2))"

text \<open>Modelled from the spec: step 4 of section 4.3, the radius \<open>r = a\<cdot>(1 - e\<cdot>cos E)\<close>; the
  propagator is not in the module.\<close>

definition orbit_radius :: "real \<Rightarrow> real \<Rightarrow> real \<Rightarrow> real" where
  "orbit_radius a e E = a * (1 - e * cos E)"

text \<open>Modelled from the spec: the rotation about the third axis used by step 5 of section
  4.3; the propagator is not in the module.\<close>

definition rot_z :: "real \<Rightarrow> vec3 \<Rightarrow> vec3" where
  "rot_z t v = (case v of (x, y, z) \<Rightarrow> (x * cos t - y * sin t, x * sin t + y * cos t, z))"

text \<open>Modelled from the spec: the rotation about the first axis used by step 5 of section
  4.3; the propagator is not in the module.\<close>

definition rot_x :: "real \<Rightarrow> vec3 \<Rightarrow> vec3" where
  "rot_x t v = (case v of (x, y, z) \<Rightarrow> (x, y * cos t - z * sin t, y * sin t + z * cos t))"

text \<open>Modelled from the spec: steps 5 and 6 of section 4.3, the rotation of a vector of the
  orbital plane into the parent-relative frame by \<open>\<omega>\<close>, \<open>i\<close>, \<open>\<Omega>\<close> in that order; with
  \<open>i = 0\<close> the inclination rotation is skipped. The propagator is not in the module.\<close>

definition to_parent_frame :: "orbit \<Rightarrow> vec3 \<Rightarrow> vec3" where
  "to_parent_frame el v =
     (let v1 = rot_z (orb_omega el) v;
          v2 = (if orb_i el = 0 then v1 else rot_x (orb_i el) v1)
      in rot_z (orb_Omega el) v2)"

text \<open>Modelled from the spec: steps 4 and 5 of section 4.3, the position in the orbital
  plane at true anomaly \<open>\<nu>\<close> and radius \<open>r\<close>, with the first axis towards periapsis, rotated
  into the parent-relative frame; the propagator is not in the module.\<close>

definition position_at :: "orbit \<Rightarrow> real \<Rightarrow> vec3" where
  "position_at el E =
     (let nu = true_anomaly (orb_e el) E;
          r = orbit_radius (orb_a el) (orb_e el) E
      in to_parent_frame el (r * cos nu, r * sin nu, 0))"

text \<open>Modelled from the spec: \<^verbatim>\<open>propagate(elements, parent_gm_or_convention, dt_seconds)\<close>
  of section 4.3, which is not in the module. A \<^verbatim>\<open>NumericalError\<close> of the Kepler solve
  is the result of the propagation.\<close>

definition propagate :: "orbit \<Rightarrow> real \<Rightarrow> real \<Rightarrow> error + vec3" where
  "propagate el gm dt =
     (case solve_kepler (orb_e el) (mean_anomaly el gm dt) of
        Inl err \<Rightarrow> Inl err
      | Inr (E, k) \<Rightarrow> Inr (position_at el E))"

text \<open>Modelled from the spec: the \<open>k\<close>-th Newton-Raphson iterate from the seed \<open>E0 = M\<close>
  (step 3 of section 4.3); the propagator is not in the module.\<close>

definition newton_iterate :: "real \<Rightarrow> real \<Rightarrow> nat \<Rightarrow> real" where
  "newton_iterate e M k = (newton_step e M ^^ k) M"

text \<open>Modelled from the spec: the convergence test of step 3 of section 4.3 on the \<open>k\<close>-th
  iterate; the propagator is not in the module.\<close>

definition converged_at :: "real \<Rightarrow> real \<Rightarrow> nat \<Rightarrow> bool" where
  "converged_at e M k = (\<bar>kepler_residual e M (newton_iterate e M k)\<bar> < eps)"


subsection \<open>FallbackResolver\<close>

text \<open>Modelled from the spec: the sum of two vectors, used by \<^verbatim>\<open>derive\<close> (section 4.4);
  the resolver is not in the module.\<close>

definition vadd :: "vec3 \<Rightarrow> vec3 \<Rightarrow> vec3" where
  "vadd u v = (case u of (ux, uy, uz) \<Rightarrow> case v of (vx, vy, vz) \<Rightarrow> (ux + vx, uy + vy, uz + vz))"

text \<open>Modelled from the spec: the negation of a vector, used by \<^verbatim>\<open>derive\<close> (section
  4.4); the resolver is not in the module.\<close>

definition vneg :: "vec3 \<Rightarrow> vec3" where
  "vneg v = (case v of (x, y, z) \<Rightarrow> (- x, - y, - z))"

text \<open>Modelled from the spec: the vector sum of a list of positions, used by \<^verbatim>\<open>derive\<close>
  (section 4.4); the resolver is not in the module.\<close>

definition vsum :: "vec3 list \<Rightarrow> vec3" where
  "vsum vs = foldr vadd vs (0, 0, 0)"

text \<open>Modelled from the spec: \<^verbatim>\<open>FallbackResolver.root_offset()\<close> of section 4.4, which is
  not in the module: always the zero vector.\<close>

definition root_offset :: vec3 where
  "root_offset = (0, 0, 0)"

text \<open>Modelled from the spec: \<^verbatim>\<open>FallbackResolver.derive(designated_body_id,
  sibling_positions)\<close> of section 4.4, which is not in the module: the negated sum of the
  supplied sibling parent-relative positions.\<close>

definition derive :: "int \<Rightarrow> vec3 list \<Rightarrow> vec3" where
  "derive designated_body_id sibling_positions = vneg (vsum sibling_positions)"


subsection \<open>StateComposer, for the children of the root\<close>

text \<open>Modelled from the spec: the results of a sequence of resolutions taken together, the
  first error being the outcome (no error of section 7 is recovered from); the composer is
  not in the module.\<close>

fun collect :: "(error + 'a) list \<Rightarrow> error + 'a list" where
  "collect [] = Inr []"
| "collect (r # rs) =
     (case r of
        Inl err \<Rightarrow> Inl err
      | Inr v \<Rightarrow> (case collect rs of Inl err \<Rightarrow> Inl err | Inr vs \<Rightarrow> Inr (v # vs)))"

text \<open>Modelled from the spec: the parent-relative position of a body that must carry a
  \<^verbatim>\<open>canonical_orbit\<close>, as the siblings of the fallback body must (invariant 5 of section
  3 and the precondition of \<^verbatim>\<open>derive\<close> in section 4.4): the propagation of its elements,
  with the gravitational parameter that the caller supplies for the body. The composer is
  not in the module.\<close>

definition propagated_position :: "(int \<Rightarrow> real) \<Rightarrow> real \<Rightarrow> body \<Rightarrow> error + vec3" where
  "propagated_position gm dt b =
     (case canonical_orbit b of
        None \<Rightarrow> Inl (UnresolvedBodyError (body_id b))
      | Some el \<Rightarrow> propagate el (gm (body_id b)) dt)"

text \<open>Modelled from the spec: the siblings of a body, the other bodies with the same parent
  (section 4.4); the resolver is not in the module.\<close>

definition siblings :: "body list \<Rightarrow> body \<Rightarrow> body list" where
  "siblings catalog b = filter (\<lambda>s. parent s = parent b \<and> body_id s \<noteq> body_id b) catalog"

text \<open>Modelled from the spec: the parent-relative offset that \<^verbatim>\<open>StateComposer\<close> obtains
  for a link of the ancestor chain (section 4.5), which is not in the module: from the
  propagator if the child has a \<^verbatim>\<open>canonical_orbit\<close>; otherwise the root offset for the
  root, the offset derived from the propagated siblings for a child of the root, the
  designated fallback body, and an \<^verbatim>\<open>UnresolvedBodyError\<close> for any other body.\<close>

definition relative_position :: "body list \<Rightarrow> (int \<Rightarrow> real) \<Rightarrow> real \<Rightarrow> body \<Rightarrow> error + vec3" where
  "relative_position catalog gm dt b =
     (case canonical_orbit b of
        Some el \<Rightarrow> propagate el (gm (body_id b)) dt
      | None \<Rightarrow>
          (case parent b of
             None \<Rightarrow> Inr root_offset
           | Some p \<Rightarrow>
               if map_option body_id (root_body catalog) = Some p
               then (case collect (map (propagated_position gm dt) (siblings catalog b)) of
                       Inl err \<Rightarrow> Inl err
                     | Inr ps \<Rightarrow> Inr (derive (body_id b) ps))
               else Inl (UnresolvedBodyError (body_id b))))"

text \<open>Modelled from the spec: the resolved parent-relative positions of all direct children
  of the root at one epoch, in catalog order (the fallback convention check of section 8);
  the composer is not in the module.\<close>

definition children_positions :: "body list \<Rightarrow> (int \<Rightarrow> real) \<Rightarrow> real \<Rightarrow> error + vec3 list" where
  "children_positions catalog gm dt =
     (case root_body catalog of
        None \<Rightarrow> Inl (CatalogError RootCount)
      | Some r \<Rightarrow>
          collect (map (relative_position catalog gm dt)
            (filter (\<lambda>b. parent b = Some (body_id r)) catalog)))"


section \<open>The hierarchy of the catalog\<close>

lemma hierarchy_table:
  "hierarchy_rows SOLAR_SYSTEM_BODIES =
    [(0, None), (10, Some 0), (1, Some 0), (2, Some 0), (3, Some 0), (4, Some 0), (5, Some 0),
     (6, Some 0), (7, Some 0), (8, Some 0), (9, Some 0), (199, Some 1), (299, Some 2),
     (399, Some 3), (499, Some 4), (599, Some 5), (699, Some 6), (799, Some 7), (899, Some 8),
     (999, Some 9), (301, Some 3), (401, Some 4), (402, Some 4), (501, Some 5), (502, Some 5),
     (503, Some 5), (504, Some 5), (601, Some 6), (602, Some 6), (603, Some 6), (604, Some 6),
     (605, Some 6), (606, Some 6), (608, Some 6), (701, Some 7), (702, Some 7), (703, Some 7),
     (704, Some 7), (705, Some 7), (801, Some 8), (802, Some 8), (803, Some 8), (901, Some 9),
     (902, Some 9), (903, Some 9), (904, Some 9), (905, Some 9)]"
  by (simp add: hierarchy_rows_def SOLAR_SYSTEM_BODIES_def)

lemma ids_table:
  "map body_id SOLAR_SYSTEM_BODIES =
    [0, 10, 1, 2, 3, 4, 5, 6, 7, 8, 9, 199, 299, 399, 499, 599, 699, 799, 899, 999, 301, 401,
     402, 501, 502, 503, 504, 601, 602, 603, 604, 605, 606, 608, 701, 702, 703, 704, 705, 801,
     802, 803, 901, 902, 903, 904, 905]"
proof -
  have "map body_id SOLAR_SYSTEM_BODIES = map fst (hierarchy_rows SOLAR_SYSTEM_BODIES)"
    by (simp add: hierarchy_rows_def comp_def)
  then show ?thesis
    by (simp add: hierarchy_table)
qed

lemma parents_table:
  "map parent SOLAR_SYSTEM_BODIES = map snd (hierarchy_rows SOLAR_SYSTEM_BODIES)"
  by (simp add: hierarchy_rows_def comp_def)

lemma bodies_length: "length SOLAR_SYSTEM_BODIES = 47"
proof -
  have "length SOLAR_SYSTEM_BODIES = length (hierarchy_rows SOLAR_SYSTEM_BODIES)"
    by (simp add: hierarchy_rows_def)
  then show ?thesis
    by (simp add: hierarchy_table)
qed

lemma ids_distinct: "distinct (map body_id SOLAR_SYSTEM_BODIES)"
  by (simp add: ids_table)

lemma row_of_body:
  "b \<in> set bodies \<Longrightarrow> (body_id b, parent b) \<in> set (hierarchy_rows bodies)"
  by (auto simp: hierarchy_rows_def)

lemma body_at:
  assumes "n < 47"
  shows "SOLAR_SYSTEM_BODIES ! n \<in> set SOLAR_SYSTEM_BODIES"
    and "body_id (SOLAR_SYSTEM_BODIES ! n) = fst (hierarchy_rows SOLAR_SYSTEM_BODIES ! n)"
    and "parent (SOLAR_SYSTEM_BODIES ! n) = snd (hierarchy_rows SOLAR_SYSTEM_BODIES ! n)"
  using assms by (simp_all add: bodies_length hierarchy_rows_def)

text \<open>The dictionary comprehension, read from its last record backwards.\<close>

lemma PARENT_MAP_step_other:
  "body_id b \<noteq> k \<Longrightarrow> PARENT_MAP_step m b k = m k"
  by (simp add: PARENT_MAP_step_def split: option.split)

lemma PARENT_MAP_step_same:
  "PARENT_MAP_step m b (body_id b) =
     (case parent b of None \<Rightarrow> m (body_id b) | Some p \<Rightarrow> Some p)"
  by (simp add: PARENT_MAP_step_def split: option.split)

lemma PARENT_MAP_of_snoc:
  "PARENT_MAP_of (bs @ [b]) = PARENT_MAP_step (PARENT_MAP_of bs) b"
  by (simp add: PARENT_MAP_of_def)

lemma PARENT_MAP_of_absent:
  "k \<notin> body_id ` set bs \<Longrightarrow> PARENT_MAP_of bs k = None"
proof (induction bs rule: rev_induct)
  case Nil
  then show ?case by (simp add: PARENT_MAP_of_def)
next
  case (snoc b bs)
  then show ?case
    by (simp add: PARENT_MAP_of_snoc PARENT_MAP_step_other)
qed

lemma PARENT_MAP_of_lookup:
  "distinct (map body_id bs) \<Longrightarrow>
   PARENT_MAP_of bs k = (case map_of (hierarchy_rows bs) k of None \<Rightarrow> None | Some p \<Rightarrow> p)"
proof (induction bs rule: rev_induct)
  case Nil
  then show ?case by (simp add: PARENT_MAP_of_def hierarchy_rows_def)
next
  case (snoc b bs)
  then have d: "distinct (map body_id bs)" and nb: "body_id b \<notin> body_id ` set bs"
    by simp_all
  have rows: "hierarchy_rows (bs @ [b]) = hierarchy_rows bs @ [(body_id b, parent b)]"
    by (simp add: hierarchy_rows_def)
  show ?case
  proof (cases "k = body_id b")
    case True
    have "map_of (hierarchy_rows bs) k = None"
      using nb True by (simp add: hierarchy_rows_def map_of_eq_None_iff image_image)
    moreover have "PARENT_MAP_of bs k = None"
      using nb True by (simp add: PARENT_MAP_of_absent)
    ultimately show ?thesis
      using True
      by (simp add: PARENT_MAP_of_snoc PARENT_MAP_step_same rows map_add_def split: option.split)
  next
    case False
    then have "PARENT_MAP_of (bs @ [b]) k = PARENT_MAP_of bs k"
      by (simp add: PARENT_MAP_of_snoc PARENT_MAP_step_other)
    moreover have "map_of (hierarchy_rows (bs @ [b])) k = map_of (hierarchy_rows bs) k"
      using False by (simp add: rows map_add_def split: option.split)
    ultimately show ?thesis
      using snoc.IH [OF d] by simp
  qed
qed

lemma rows_lookup_find:
  "map_of (hierarchy_rows bs) k = map_option parent (find (\<lambda>b. body_id b = k) bs)"
  by (induction bs) (auto simp: hierarchy_rows_def)

lemma PARENT_MAP_of_parent_of:
  "distinct (map body_id bs) \<Longrightarrow> PARENT_MAP_of bs k = parent_of bs k"
  by (simp add: PARENT_MAP_of_lookup rows_lookup_find parent_of_def split: option.split)

lemma dom_PARENT_MAP_step:
  "dom (PARENT_MAP_step m b) = (if parent b = None then dom m else insert (body_id b) (dom m))"
  by (auto simp: PARENT_MAP_step_def split: option.splits)

lemma dom_PARENT_MAP_of:
  "dom (PARENT_MAP_of bs) = set (map body_id (filter (\<lambda>b. parent b \<noteq> None) bs))"
proof (induction bs rule: rev_induct)
  case Nil
  then show ?case by (simp add: PARENT_MAP_of_def)
next
  case (snoc b bs)
  then show ?case
    by (simp add: PARENT_MAP_of_snoc dom_PARENT_MAP_step)
qed

lemma PARENT_MAP_lookup:
  "PARENT_MAP k =
     (case map_of (hierarchy_rows SOLAR_SYSTEM_BODIES) k of None \<Rightarrow> None | Some p \<Rightarrow> p)"
  unfolding PARENT_MAP_def by (rule PARENT_MAP_of_lookup [OF ids_distinct])

lemma PARENT_MAP_smaller: "PARENT_MAP c = Some p \<Longrightarrow> 0 \<le> p \<and> p < c"
  by (simp add: PARENT_MAP_lookup hierarchy_table split: if_splits)

lemma PARENT_MAP_row:
  assumes "(c, Some p) \<in> set (hierarchy_rows SOLAR_SYSTEM_BODIES)"
  shows "PARENT_MAP c = Some p"
proof -
  have "distinct (map fst (hierarchy_rows SOLAR_SYSTEM_BODIES))"
    using ids_distinct by (simp add: hierarchy_rows_def comp_def)
  then have "map_of (hierarchy_rows SOLAR_SYSTEM_BODIES) c = Some (Some p)"
    using assms by (rule map_of_is_SomeI)
  then show ?thesis
    by (simp add: PARENT_MAP_lookup)
qed

lemma parent_filter_ids:
  "map body_id (filter (\<lambda>b. P (parent b)) bodies) =
   map fst (filter (\<lambda>r. P (snd r)) (hierarchy_rows bodies))"
  by (induction bodies) (simp_all add: hierarchy_rows_def)

lemma id_filter_ids:
  "map body_id (filter (\<lambda>b. P (body_id b) (parent b)) bodies) =
   map fst (filter (\<lambda>r. P (fst r) (snd r)) (hierarchy_rows bodies))"
  by (induction bodies) (simp_all add: hierarchy_rows_def)

lemma load_catalog: "load SOLAR_SYSTEM_BODIES = Inr SOLAR_SYSTEM_BODIES"
proof -
  have dangling: "\<not> list_ex (\<lambda>body. case parent body of None \<Rightarrow> False
      | Some p \<Rightarrow> p \<notin> set (map body_id SOLAR_SYSTEM_BODIES)) SOLAR_SYSTEM_BODIES"
  proof -
    have "\<forall>r \<in> set (hierarchy_rows SOLAR_SYSTEM_BODIES).
        case snd r of None \<Rightarrow> True | Some p \<Rightarrow> p \<in> set (map body_id SOLAR_SYSTEM_BODIES)"
      unfolding ids_table hierarchy_table by simp
    then show ?thesis
      by (auto simp: list_ex_iff hierarchy_rows_def split: option.splits)
  qed
  have roots: "length (filter (\<lambda>body. parent body = None) SOLAR_SYSTEM_BODIES) = 1"
  proof -
    have "length (filter (\<lambda>body. parent body = None) SOLAR_SYSTEM_BODIES) =
        length (map body_id (filter (\<lambda>body. parent body = None) SOLAR_SYSTEM_BODIES))"
      by simp
    also have "\<dots> = 1"
      unfolding parent_filter_ids [of "\<lambda>p. p = None"] hierarchy_table by simp
    finally show ?thesis .
  qed
  have range: "\<not> list_ex (\<lambda>body. case canonical_orbit body of None \<Rightarrow> False
      | Some el \<Rightarrow> \<not> elements_in_range el) SOLAR_SYSTEM_BODIES"
    by (simp add: SOLAR_SYSTEM_BODIES_def elements_in_range_def)
  show ?thesis
    unfolding load_def using ids_distinct dangling roots range by simp
qed


section \<open>The Kepler solve and the fallback rule\<close>

lemma normalize_angle_range: "0 \<le> normalize_angle x \<and> normalize_angle x < 2 * pi"
proof -
  define q where "q = x / (2 * pi)"
  have x: "x = 2 * pi * q"
    by (simp add: q_def)
  have "of_int \<lfloor>q\<rfloor> \<le> q" and "q < of_int \<lfloor>q\<rfloor> + 1"
    by linarith+
  then have "0 \<le> q - of_int \<lfloor>q\<rfloor>" and "q - of_int \<lfloor>q\<rfloor> < 1"
    by linarith+
  then have "0 \<le> 2 * pi * (q - of_int \<lfloor>q\<rfloor>)"
    and "2 * pi * (q - of_int \<lfloor>q\<rfloor>) < 2 * pi * 1"
    by (simp_all only: mult_less_cancel_left_pos zero_le_mult_iff) (simp_all)
  moreover have "normalize_angle x = 2 * pi * (q - of_int \<lfloor>q\<rfloor>)"
    unfolding normalize_angle_def q_def [symmetric] by (simp add: x algebra_simps)
  ultimately show ?thesis
    by simp
qed

lemma mean_anomaly_range: "0 \<le> mean_anomaly el gm dt \<and> mean_anomaly el gm dt < 2 * pi"
  unfolding mean_anomaly_def by (rule normalize_angle_range)

lemma atan2_sin_cos:
  assumes "0 \<le> h" and "h < pi"
  shows "atan2 (sin h) (cos h) = h"
proof -
  consider "h < pi / 2" | "h = pi / 2" | "pi / 2 < h"
    by linarith
  then show ?thesis
  proof cases
    case 1
    then have "0 < cos h"
      using assms by (intro cos_gt_zero_pi) linarith+
    moreover have "arctan (tan h) = h"
      using 1 assms by (intro arctan_tan) linarith+
    ultimately show ?thesis
      by (simp add: atan2_def tan_def)
  next
    case 2
    show ?thesis
      unfolding 2 by (simp add: atan2_def)
  next
    case 3
    have "0 < cos (pi - h)"
      using 3 assms by (intro cos_gt_zero_pi) linarith+
    then have c: "cos h < 0"
      by simp
    have "0 < sin h"
      using 3 assms by (intro sin_gt_zero) linarith+
    then have s: "0 \<le> sin h"
      by simp
    have "arctan (tan (h - pi)) = h - pi"
      using 3 assms by (intro arctan_tan) linarith+
    moreover have "tan (h - pi) = tan h"
      using tan_periodic_pi [of "h - pi"] by simp
    ultimately have "arctan (sin h / cos h) = h - pi"
      by (simp add: tan_def)
    then show ?thesis
      using c s by (simp add: atan2_def)
  qed
qed

lemma true_anomaly_circular:
  assumes "0 \<le> M" and "M < 2 * pi"
  shows "true_anomaly 0 M = M"
  using atan2_sin_cos [of "M / 2"] assms by (simp add: true_anomaly_def)

text \<open>The capped iteration, read as a search for the first iterate that passes the test.\<close>

lemma find_map_Suc: "find P (map Suc js) = map_option Suc (find (\<lambda>j. P (Suc j)) js)"
  by (induction js) simp_all

lemma find_upt_Suc:
  "find P [0..<Suc (Suc n)] =
     (if P 0 then Some 0 else map_option Suc (find (\<lambda>j. P (Suc j)) [0..<Suc n]))"
proof -
  have "[0..<Suc (Suc n)] = 0 # [Suc 0..<Suc (Suc n)]"
    by (rule upt_conv_Cons) simp
  then have "[0..<Suc (Suc n)] = 0 # map Suc [0..<Suc n]"
    by (simp only: map_Suc_upt)
  then show ?thesis
    by (simp only: find.simps find_map_Suc)
qed

lemma newton_search:
  "newton e M n k E =
     (case find (\<lambda>j. \<bar>kepler_residual e M ((newton_step e M ^^ j) E)\<bar> < eps) [0..<Suc n] of
        Some j \<Rightarrow> Inr ((newton_step e M ^^ j) E, k + j)
      | None \<Rightarrow> Inl (NumericalError (kepler_residual e M ((newton_step e M ^^ n) E)) (k + n)))"
proof (induction n arbitrary: k E)
  case 0
  show ?case by simp
next
  case (Suc n)
  show ?case
    unfolding find_upt_Suc newton.simps Suc.IH
    by (simp add: funpow_swap1 split: option.split)
qed


lemma solve_kepler_search:
  assumes "e \<noteq> 0"
  shows "solve_kepler e M =
     (case find (converged_at e M) [0..<Suc iteration_cap] of
        Some k \<Rightarrow> Inr (newton_iterate e M k, k)
      | None \<Rightarrow> Inl (NumericalError (kepler_residual e M (newton_iterate e M iteration_cap))
          iteration_cap))"
proof -
  have "converged_at e M = (\<lambda>j. \<bar>kepler_residual e M ((newton_step e M ^^ j) M)\<bar> < eps)"
    by (simp add: converged_at_def newton_iterate_def fun_eq_iff)
  then show ?thesis
    using assms
    by (simp add: solve_kepler_def newton_search newton_iterate_def split: option.split
        del: upt_Suc)
qed



lemma vadd_vneg: "vadd (vneg v) v = (0, 0, 0)"
  by (cases v) (simp add: vadd_def vneg_def)

lemma vsum_Cons: "vsum (v # vs) = vadd v (vsum vs)"
  by (simp add: vsum_def)


text \<open>
  For an eccentricity of at most \<open>1/4\<close> the Newton-Raphson iteration from the seed
  \<open>E0 = M\<close> converges within the cap for every mean anomaly: the error to the root of
  Kepler's equation shrinks by a factor of 16 at least with every step.
\<close>

lemma sin_lipschitz: "\<bar>sin x - sin y\<bar> \<le> \<bar>x - y\<bar>" for x y :: real
proof -
  have "\<bar>sin x - sin y\<bar> = 2 * \<bar>sin ((x - y) / 2)\<bar> * \<bar>cos ((x + y) / 2)\<bar>"
    by (simp add: sin_diff_sin abs_mult)
  also have "\<dots> \<le> 2 * \<bar>(x - y) / 2\<bar> * 1"
    by (intro mult_mono abs_sin_x_le_abs_x abs_cos_le_one) simp_all
  finally show ?thesis
    by simp
qed

lemma cos_lipschitz: "\<bar>cos x - cos y\<bar> \<le> \<bar>x - y\<bar>" for x y :: real
proof -
  have "\<bar>cos x - cos y\<bar> = 2 * \<bar>sin ((x + y) / 2)\<bar> * \<bar>sin ((y - x) / 2)\<bar>"
    by (simp add: cos_diff_cos abs_mult)
  also have "\<dots> \<le> 2 * 1 * \<bar>(y - x) / 2\<bar>"
    by (intro mult_mono abs_sin_x_le_abs_x abs_sin_le_one) simp_all
  finally show ?thesis
    by simp
qed

lemma sin_linear_bound: "\<bar>sin x - x\<bar> \<le> x\<^sup>2 / 2" for x :: real
proof -
  have c: "sin_coeff (Suc 0) = 1"
    by (simp add: sin_coeff_def)
  have "(\<Sum>m<Suc (Suc 0). sin_coeff m * x ^ m) = x"
    by (simp add: c)
  moreover have "\<bar>sin x - (\<Sum>m<Suc (Suc 0). sin_coeff m * x ^ m)\<bar>
      \<le> inverse (fact (Suc (Suc 0))) * \<bar>x\<bar> ^ Suc (Suc 0)"
    by (rule Maclaurin_sin_bound)
  ultimately have "\<bar>sin x - x\<bar> \<le> inverse (fact (Suc (Suc 0))) * \<bar>x\<bar> ^ Suc (Suc 0)"
    by (simp only:)
  then show ?thesis
    by (simp add: power2_eq_square)
qed

lemma newton_numerator:
  "\<bar>sin E - sin (E - d) - d * cos E\<bar> \<le> 3 / 4 * d\<^sup>2" for E d :: real
proof -
  have split: "sin E - sin (E - d) - d * cos E =
      2 * sin (d / 2) * (cos (E - d / 2) - cos E) + 2 * (sin (d / 2) - d / 2) * cos E"
  proof -
    have "(E - (E - d)) / 2 = d / 2" and "(E + (E - d)) / 2 = E - d / 2"
      by (simp_all add: field_simps)
    then have "sin E - sin (E - d) = 2 * sin (d / 2) * cos (E - d / 2)"
      using sin_diff_sin [of E "E - d"] by (simp only:)
    then show ?thesis
      by (simp add: algebra_simps)
  qed
  have "\<bar>2 * sin (d / 2) * (cos (E - d / 2) - cos E)\<bar> =
      2 * \<bar>sin (d / 2)\<bar> * \<bar>cos (E - d / 2) - cos E\<bar>"
    by (simp add: abs_mult)
  also have "\<dots> \<le> 2 * \<bar>d / 2\<bar> * \<bar>E - d / 2 - E\<bar>"
    by (intro mult_mono abs_sin_x_le_abs_x cos_lipschitz) simp_all
  also have "\<dots> = d\<^sup>2 / 2"
    by (simp add: power2_eq_square)
  finally have first: "\<bar>2 * sin (d / 2) * (cos (E - d / 2) - cos E)\<bar> \<le> d\<^sup>2 / 2" .
  have "\<bar>2 * (sin (d / 2) - d / 2) * cos E\<bar> = 2 * \<bar>sin (d / 2) - d / 2\<bar> * \<bar>cos E\<bar>"
    by (simp only: abs_mult abs_numeral)
  also have "\<dots> \<le> 2 * ((d / 2)\<^sup>2 / 2) * 1"
    by (intro mult_mono sin_linear_bound abs_cos_le_one) simp_all
  also have "\<dots> = d\<^sup>2 / 4"
    by (simp add: power2_eq_square)
  finally have second: "\<bar>2 * (sin (d / 2) - d / 2) * cos E\<bar> \<le> d\<^sup>2 / 4" .
  have "\<bar>sin E - sin (E - d) - d * cos E\<bar> \<le>
      \<bar>2 * sin (d / 2) * (cos (E - d / 2) - cos E)\<bar> + \<bar>2 * (sin (d / 2) - d / 2) * cos E\<bar>"
    unfolding split by (rule abs_triangle_ineq)
  with first second show ?thesis
    by simp
qed

lemma kepler_root_exists:
  assumes "0 \<le> e" and "e < 1"
  shows "\<exists>Es. kepler_residual e M Es = 0 \<and> \<bar>Es - M\<bar> \<le> e"
proof -
  have lo: "kepler_residual e M (M - 1) \<le> 0"
  proof -
    have "- sin (M - 1) \<le> 1"
      using sin_ge_minus_one [of "M - 1"] by simp
    then have "e * (- sin (M - 1)) \<le> e * 1"
      using assms(1) by (rule mult_left_mono)
    then show ?thesis
      using assms(2) by (simp add: kepler_residual_def)
  qed
  have hi: "0 \<le> kepler_residual e M (M + 1)"
  proof -
    have "e * sin (M + 1) \<le> e * 1"
      using assms(1) by (intro mult_left_mono) simp_all
    then show ?thesis
      using assms(2) by (simp add: kepler_residual_def)
  qed
  have "\<forall>x. M - 1 \<le> x \<and> x \<le> M + 1 \<longrightarrow> isCont (kepler_residual e M) x"
    unfolding kepler_residual_def by (intro allI impI continuous_intros)
  with lo hi obtain Es where "kepler_residual e M Es = 0"
    using IVT [of "kepler_residual e M" "M - 1" 0 "M + 1"] by auto
  moreover from this have "Es - M = e * sin Es"
    by (simp add: kepler_residual_def)
  then have "\<bar>Es - M\<bar> = e * \<bar>sin Es\<bar>"
    using assms(1) by (simp add: abs_mult)
  then have "\<bar>Es - M\<bar> \<le> e * 1"
    using assms(1) by (simp add: mult_left_le)
  ultimately show ?thesis
    by auto
qed


lemma newton_step_error:
  assumes "0 \<le> e" and "e \<le> 1 / 4"
    and root: "kepler_residual e M Es = 0"
    and near: "\<bar>E - Es\<bar> \<le> 1 / 4"
  shows "\<bar>newton_step e M E - Es\<bar> \<le> \<bar>E - Es\<bar> / 16"
proof -
  define d where "d = E - Es"
  define D where "D = 1 - e * cos E"
  define N where "N = sin E - sin (E - d) - d * cos E"
  have "e * cos E \<le> e * 1"
    using assms(1) by (intro mult_left_mono) simp_all
  then have D: "3 / 4 \<le> D"
    using assms(2) by (simp add: D_def)
  then have D0: "D \<noteq> 0"
    by simp
  have Es: "Es = E - d"
    by (simp add: d_def)
  have res: "kepler_residual e M E = d - e * (sin E - sin (E - d))"
    using root unfolding Es by (simp add: kepler_residual_def algebra_simps)
  have "newton_step e M E - Es = d - (d - e * (sin E - sin (E - d))) / D"
    unfolding newton_step_def res D_def [symmetric] by (simp add: d_def)
  also have "\<dots> = (d * D - (d - e * (sin E - sin (E - d)))) / D"
    using D0 by (simp add: field_simps)
  also have "d * D - (d - e * (sin E - sin (E - d))) = e * N"
    by (simp add: D_def N_def algebra_simps)
  finally have step: "newton_step e M E - Es = e * N / D" .
  have N: "\<bar>N\<bar> \<le> 3 / 4 * d\<^sup>2"
    unfolding N_def by (rule newton_numerator)
  have "\<bar>e * N / D\<bar> = e * \<bar>N\<bar> / D"
    using assms(1) D by (simp add: abs_mult)
  also have "\<dots> \<le> (1 / 4 * (3 / 4 * d\<^sup>2)) / (3 / 4)"
  proof (rule frac_le)
    show "e * \<bar>N\<bar> \<le> 1 / 4 * (3 / 4 * d\<^sup>2)"
      using assms(1,2) N by (intro mult_mono) simp_all
    show "0 \<le> 1 / 4 * (3 / 4 * d\<^sup>2)"
      by simp
    show "(0::real) < 3 / 4"
      by simp
    show "3 / 4 \<le> D"
      by (rule D)
  qed
  also have "\<dots> = \<bar>d\<bar> * \<bar>d\<bar> / 4"
    by (simp add: power2_eq_square)
  also have "\<dots> \<le> \<bar>d\<bar> * (1 / 4) / 4"
    using near by (intro divide_right_mono mult_left_mono) (simp_all add: d_def)
  finally show ?thesis
    unfolding step by (simp add: d_def)
qed

lemma newton_iterate_Suc: "newton_iterate e M (Suc k) = newton_step e M (newton_iterate e M k)"
  by (simp add: newton_iterate_def)

lemma newton_iterate_error:
  assumes "0 \<le> e" and "e \<le> 1 / 4"
    and root: "kepler_residual e M Es = 0"
    and seed: "\<bar>M - Es\<bar> \<le> 1 / 4"
  shows "\<bar>newton_iterate e M k - Es\<bar> \<le> 1 / 4 / 16 ^ k"
proof (induction k)
  case 0
  show ?case
    using seed by (simp add: newton_iterate_def)
next
  case (Suc k)
  have "(1 / 4 / 16 ^ k :: real) \<le> 1 / 4 / 1"
    by (intro divide_left_mono) simp_all
  then have "(1 / 4 / 16 ^ k :: real) \<le> 1 / 4"
    by (simp only: div_by_1)
  with Suc have near: "\<bar>newton_iterate e M k - Es\<bar> \<le> 1 / 4"
    by (rule order_trans)
  have "\<bar>newton_iterate e M (Suc k) - Es\<bar> \<le> \<bar>newton_iterate e M k - Es\<bar> / 16"
    unfolding newton_iterate_Suc by (rule newton_step_error [OF assms(1,2) root near])
  also have "\<dots> \<le> (1 / 4 / 16 ^ k) / 16"
    using Suc by (intro divide_right_mono) simp_all
  finally show ?case
    by simp
qed

lemma kepler_residual_near_root:
  assumes "0 \<le> e" and root: "kepler_residual e M Es = 0"
  shows "\<bar>kepler_residual e M E\<bar> \<le> (1 + e) * \<bar>E - Es\<bar>"
proof -
  have "kepler_residual e M E = (E - Es) - e * (sin E - sin Es)"
    using root by (simp add: kepler_residual_def algebra_simps)
  then have "\<bar>kepler_residual e M E\<bar> \<le> \<bar>E - Es\<bar> + \<bar>e * (sin E - sin Es)\<bar>"
    by (simp only: abs_triangle_ineq4)
  also have "\<bar>e * (sin E - sin Es)\<bar> = e * \<bar>sin E - sin Es\<bar>"
    using assms(1) by (simp add: abs_mult)
  also have "\<dots> \<le> e * \<bar>E - Es\<bar>"
    using assms(1) by (intro mult_left_mono sin_lipschitz)
  finally show ?thesis
    by (simp add: algebra_simps)
qed

lemma converged_at_ten:
  assumes "0 \<le> e" and "e \<le> 1 / 4"
  shows "converged_at e M 10"
proof -
  from kepler_root_exists [of e M] assms
  obtain Es where root: "kepler_residual e M Es = 0" and "\<bar>Es - M\<bar> \<le> e"
    by auto
  then have seed: "\<bar>M - Es\<bar> \<le> 1 / 4"
    using assms(2) by (simp add: abs_minus_commute)
  have err: "\<bar>newton_iterate e M 10 - Es\<bar> \<le> 1 / 4 / 16 ^ 10"
    by (rule newton_iterate_error [OF assms root seed])
  have "\<bar>kepler_residual e M (newton_iterate e M 10)\<bar> \<le> (1 + e) * \<bar>newton_iterate e M 10 - Es\<bar>"
    by (rule kepler_residual_near_root [OF assms(1) root])
  also have "\<dots> \<le> (1 + 1 / 4) * (1 / 4 / 16 ^ 10)"
    using assms err by (intro mult_mono) simp_all
  also have "\<dots> < eps"
    by (simp add: eps_def)
  finally show ?thesis
    by (simp add: converged_at_def)
qed

lemma solve_kepler_total:
  assumes "0 \<le> e" and "e \<le> 1 / 4"
  shows "\<exists>E k. solve_kepler e M = Inr (E, k)"
proof (cases "e = 0")
  case True
  then show ?thesis
    by (simp add: solve_kepler_def)
next
  case False
  have "10 \<in> set [0..<Suc iteration_cap]"
    by (simp add: iteration_cap_def)
  with converged_at_ten [OF assms]
  have "find (converged_at e M) [0..<Suc iteration_cap] \<noteq> None"
    by (simp only: find_None_iff) blast
  then obtain k where "find (converged_at e M) [0..<Suc iteration_cap] = Some k"
    by blast
  then show ?thesis
    unfolding solve_kepler_search [OF False] by (simp only: option.case) blast
qed

lemma propagate_total:
  assumes "0 \<le> orb_e el" and "orb_e el \<le> 1 / 4"
  shows "\<exists>pos. propagate el gm dt = Inr pos"
proof -
  from solve_kepler_total [OF assms]
  obtain E k where "solve_kepler (orb_e el) (mean_anomaly el gm dt) = Inr (E, k)"
    by blast
  then have "propagate el gm dt = Inr (position_at el E)"
    by (simp add: propagate_def)
  then show ?thesis
    by (rule exI)
qed

lemma collect_all_results:
  assumes "\<forall>x \<in> set xs. \<exists>v. f x = Inr v"
  shows "\<exists>vs. collect (map f xs) = Inr vs \<and> length vs = length xs"
  using assms
proof (induction xs)
  case Nil
  show ?case by simp
next
  case (Cons x xs)
  then obtain v vs where "f x = Inr v" and "collect (map f xs) = Inr vs"
    and "length vs = length xs"
    by auto
  then show ?case
    by simp
qed
























section \<open>The claims\<close>

text \<open>
  C1. For every record of \<^verbatim>\<open>SOLAR_SYSTEM_BODIES\<close> whose parent is not \<^verbatim>\<open>None\<close>, the
  parent is the id of a record of the catalog; following the parent links of
  \<^verbatim>\<open>PARENT_MAP\<close> from any body reaches the root, id 0; and the links have no cycle, so
  no body is revisited on the way and no body is its own ancestor. A body has at most one
  parent link, \<^verbatim>\<open>PARENT_MAP\<close> being a dictionary, so the links form a tree rooted at the
  root body.
\<close>

theorem parent_graph_is_tree:
  "(\<forall>b \<in> set SOLAR_SYSTEM_BODIES. \<forall>p. parent b = Some p \<longrightarrow>
      p \<in> set (map body_id SOLAR_SYSTEM_BODIES))
   \<and> (\<forall>b \<in> set SOLAR_SYSTEM_BODIES. (body_id b, 0) \<in> parent_links\<^sup>*)
   \<and> (\<forall>x. (x, x) \<notin> parent_links\<^sup>+)"
proof (intro conjI)
  have rows: "\<forall>r \<in> set (hierarchy_rows SOLAR_SYSTEM_BODIES).
      case snd r of None \<Rightarrow> fst r = 0
      | Some p \<Rightarrow> p \<in> set (map body_id SOLAR_SYSTEM_BODIES) \<and> (p = 0 \<or> p \<in> {1..9})"
    unfolding ids_table hierarchy_table by simp
  show "\<forall>b \<in> set SOLAR_SYSTEM_BODIES. \<forall>p. parent b = Some p \<longrightarrow>
      p \<in> set (map body_id SOLAR_SYSTEM_BODIES)"
  proof (intro ballI allI impI)
    fix b p
    assume "b \<in> set SOLAR_SYSTEM_BODIES" and "parent b = Some p"
    then have "(body_id b, Some p) \<in> set (hierarchy_rows SOLAR_SYSTEM_BODIES)"
      using row_of_body [of b SOLAR_SYSTEM_BODIES] by simp
    with rows show "p \<in> set (map body_id SOLAR_SYSTEM_BODIES)"
      by fastforce
  qed
  have level1: "(p, 0) \<in> parent_links" if "p \<in> {1..9}" for p :: int
  proof -
    from that have "(p, Some 0) \<in> set (hierarchy_rows SOLAR_SYSTEM_BODIES)"
      unfolding hierarchy_table by (simp add: atLeastAtMost_iff) presburger
    then show ?thesis
      by (simp add: parent_links_def PARENT_MAP_row)
  qed
  show "\<forall>b \<in> set SOLAR_SYSTEM_BODIES. (body_id b, 0) \<in> parent_links\<^sup>*"
  proof
    fix b
    assume b: "b \<in> set SOLAR_SYSTEM_BODIES"
    then have row: "(body_id b, parent b) \<in> set (hierarchy_rows SOLAR_SYSTEM_BODIES)"
      by (rule row_of_body)
    show "(body_id b, 0) \<in> parent_links\<^sup>*"
    proof (cases "parent b")
      case None
      with rows row have "body_id b = 0"
        by fastforce
      then show ?thesis
        by simp
    next
      case (Some p)
      with row have link: "(body_id b, p) \<in> parent_links"
        by (simp add: parent_links_def PARENT_MAP_row)
      from rows row Some have "p = 0 \<or> p \<in> {1..9}"
        by fastforce
      then show ?thesis
      proof
        assume "p = 0"
        with link show ?thesis
          by auto
      next
        assume "p \<in> {1..9}"
        then have "(p, 0) \<in> parent_links"
          by (rule level1)
        with link show ?thesis
          by (meson converse_rtrancl_into_rtrancl r_into_rtrancl)
      qed
    qed
  qed
  have "parent_links\<inverse> \<subseteq> int_ge_less_than 0"
    using PARENT_MAP_smaller by (auto simp: parent_links_def int_ge_less_than_def)
  then have "wf (parent_links\<inverse>)"
    by (rule wf_subset [OF wf_int_ge_less_than])
  then have "acyclic (parent_links\<inverse>)"
    by (rule wf_acyclic)
  then have "acyclic parent_links"
    by (simp only: acyclic_converse)
  then show "\<forall>x. (x, x) \<notin> parent_links\<^sup>+"
    by (simp add: acyclic_def)
qed

theorem parent_graph_is_tree_witness:
  "parent (SOLAR_SYSTEM_BODIES ! 20) = Some 3
   \<and> body_id (SOLAR_SYSTEM_BODIES ! 20) = 301
   \<and> 3 \<in> set (map body_id SOLAR_SYSTEM_BODIES)
   \<and> (301, 0) \<in> parent_links\<^sup>*
   \<and> (301, 301) \<notin> parent_links\<^sup>+"
proof -
  have m: "SOLAR_SYSTEM_BODIES ! 20 \<in> set SOLAR_SYSTEM_BODIES"
    by (simp add: body_at)
  have p: "parent (SOLAR_SYSTEM_BODIES ! 20) = Some 3"
    by (simp add: body_at hierarchy_table)
  have i: "body_id (SOLAR_SYSTEM_BODIES ! 20) = 301"
    by (simp add: body_at hierarchy_table)
  show ?thesis
    using parent_graph_is_tree m p i by (metis (no_types, lifting))
qed

text \<open>
  C2. Exactly one record of \<^verbatim>\<open>SOLAR_SYSTEM_BODIES\<close> has \<^verbatim>\<open>parent = None\<close>: the first
  one, id 0, the Solar System Barycenter. So \<^verbatim>\<open>root()\<close> returns that body, the parent
  of its id is absent, and \<^verbatim>\<open>PARENT_MAP\<close> has an entry for the id of every body except
  the root. On this catalog \<^verbatim>\<open>parent_of\<close> and \<^verbatim>\<open>PARENT_MAP\<close> are the same lookup.
\<close>

theorem unique_root:
  "filter (\<lambda>b. parent b = None) SOLAR_SYSTEM_BODIES = [SOLAR_SYSTEM_BODIES ! 0]
   \<and> body_id (SOLAR_SYSTEM_BODIES ! 0) = 0
   \<and> name (SOLAR_SYSTEM_BODIES ! 0) = ''Solar System Barycenter''
   \<and> root_body SOLAR_SYSTEM_BODIES = Some (SOLAR_SYSTEM_BODIES ! 0)
   \<and> parent_of SOLAR_SYSTEM_BODIES 0 = None
   \<and> PARENT_MAP 0 = None
   \<and> (\<forall>k. parent_of SOLAR_SYSTEM_BODIES k = PARENT_MAP k)
   \<and> dom PARENT_MAP = set (map body_id SOLAR_SYSTEM_BODIES) - {0}
   \<and> (\<forall>b \<in> set SOLAR_SYSTEM_BODIES. body_id b \<noteq> 0 \<longrightarrow> PARENT_MAP (body_id b) \<noteq> None)"
proof -
  have roots: "filter (\<lambda>b. parent b = None) SOLAR_SYSTEM_BODIES = [SOLAR_SYSTEM_BODIES ! 0]"
    by (simp add: SOLAR_SYSTEM_BODIES_def)
  have root_id: "body_id (SOLAR_SYSTEM_BODIES ! 0) = 0"
    by (simp add: body_at hierarchy_table)
  have root_name: "name (SOLAR_SYSTEM_BODIES ! 0) = ''Solar System Barycenter''"
    by (simp add: SOLAR_SYSTEM_BODIES_def)
  have root: "root_body SOLAR_SYSTEM_BODIES = Some (SOLAR_SYSTEM_BODIES ! 0)"
    unfolding root_body_def roots by simp
  have no_entry: "PARENT_MAP 0 = None"
    by (simp add: PARENT_MAP_lookup hierarchy_table)
  have same: "parent_of SOLAR_SYSTEM_BODIES k = PARENT_MAP k" for k
    unfolding PARENT_MAP_def by (rule PARENT_MAP_of_parent_of [OF ids_distinct, symmetric])
  have keys: "dom PARENT_MAP = set (map body_id SOLAR_SYSTEM_BODIES) - {0}"
    unfolding PARENT_MAP_def dom_PARENT_MAP_of
      parent_filter_ids [of "\<lambda>p. p \<noteq> None"] ids_table hierarchy_table
    by simp
  have others: "\<forall>b \<in> set SOLAR_SYSTEM_BODIES. body_id b \<noteq> 0 \<longrightarrow> PARENT_MAP (body_id b) \<noteq> None"
  proof (intro ballI impI)
    fix b
    assume "b \<in> set SOLAR_SYSTEM_BODIES" and "body_id b \<noteq> 0"
    then have "body_id b \<in> dom PARENT_MAP"
      unfolding keys by simp
    then show "PARENT_MAP (body_id b) \<noteq> None"
      by (simp add: dom_def)
  qed
  show ?thesis
    using roots root_id root_name root no_entry same keys others
    by (simp only: simp_thms)
qed

theorem unique_root_witness:
  "body_id (SOLAR_SYSTEM_BODIES ! 1) = 10
   \<and> body_id (SOLAR_SYSTEM_BODIES ! 1) \<noteq> 0
   \<and> PARENT_MAP (body_id (SOLAR_SYSTEM_BODIES ! 1)) \<noteq> None
   \<and> PARENT_MAP 10 = Some 0"
proof -
  have m: "SOLAR_SYSTEM_BODIES ! 1 \<in> set SOLAR_SYSTEM_BODIES"
    by (simp add: body_at)
  have i: "body_id (SOLAR_SYSTEM_BODIES ! 1) = 10"
    by (simp add: body_at hierarchy_table)
  have v: "PARENT_MAP 10 = Some 0"
    by (simp add: PARENT_MAP_lookup hierarchy_table)
  show ?thesis
    using unique_root m i v by auto
qed

text \<open>
  C3. The direct children of the root are the records with \<^verbatim>\<open>parent = 0\<close>: the Sun, id
  10, and the nine barycenters, ids 1 to 9. Among them the Sun alone has no
  \<^verbatim>\<open>canonical_orbit\<close>, and each of the nine barycenters has one. In the whole catalog
  the bodies without \<^verbatim>\<open>canonical_orbit\<close> are the root and the Sun.
\<close>

theorem fallback_body_is_sun:
  "map body_id (filter (\<lambda>b. parent b = Some 0) SOLAR_SYSTEM_BODIES) =
     [10, 1, 2, 3, 4, 5, 6, 7, 8, 9]
   \<and> map (\<lambda>b. (body_id b, name b))
       (filter (\<lambda>b. parent b = Some 0 \<and> canonical_orbit b = None) SOLAR_SYSTEM_BODIES) =
     [(10, ''Sun'')]
   \<and> map body_id
       (filter (\<lambda>b. parent b = Some 0 \<and> canonical_orbit b \<noteq> None) SOLAR_SYSTEM_BODIES) =
     [1, 2, 3, 4, 5, 6, 7, 8, 9]
   \<and> map body_id (filter (\<lambda>b. canonical_orbit b = None) SOLAR_SYSTEM_BODIES) = [0, 10]"
proof (intro conjI)
  show "map body_id (filter (\<lambda>b. parent b = Some 0) SOLAR_SYSTEM_BODIES) =
      [10, 1, 2, 3, 4, 5, 6, 7, 8, 9]"
    unfolding parent_filter_ids [of "\<lambda>p. p = Some 0"] hierarchy_table by simp
  show "map (\<lambda>b. (body_id b, name b))
      (filter (\<lambda>b. parent b = Some 0 \<and> canonical_orbit b = None) SOLAR_SYSTEM_BODIES) =
      [(10, ''Sun'')]"
    by (simp add: SOLAR_SYSTEM_BODIES_def)
  show "map body_id
      (filter (\<lambda>b. parent b = Some 0 \<and> canonical_orbit b \<noteq> None) SOLAR_SYSTEM_BODIES) =
      [1, 2, 3, 4, 5, 6, 7, 8, 9]"
    by (simp add: SOLAR_SYSTEM_BODIES_def)
  show "map body_id (filter (\<lambda>b. canonical_orbit b = None) SOLAR_SYSTEM_BODIES) = [0, 10]"
    by (simp add: SOLAR_SYSTEM_BODIES_def)
qed

text \<open>
  C4. Every \<^verbatim>\<open>canonical_orbit\<close> of \<^verbatim>\<open>SOLAR_SYSTEM_BODIES\<close> has \<open>a > 0\<close> and
  \<open>0 \<le> e < 1\<close>, Nereid with \<open>e = 0.751\<close>, the largest eccentricity of the catalog,
  included. So \<^verbatim>\<open>BodyCatalog.load\<close> finds no element out of range; it finds no other
  defect either and returns the catalog.
\<close>

theorem orbits_in_range:
  "(\<forall>b \<in> set SOLAR_SYSTEM_BODIES. \<forall>el. canonical_orbit b = Some el \<longrightarrow>
      0 < orb_a el \<and> 0 \<le> orb_e el \<and> orb_e el < 1)
   \<and> map (\<lambda>b. (body_id b, map_option orb_e (canonical_orbit b)))
       (filter (\<lambda>b. name b = ''Nereid'') SOLAR_SYSTEM_BODIES) = [(803, Some 0.751)]
   \<and> (\<forall>b \<in> set SOLAR_SYSTEM_BODIES. \<forall>el. canonical_orbit b = Some el \<longrightarrow> orb_e el \<le> 0.751)
   \<and> load SOLAR_SYSTEM_BODIES = Inr SOLAR_SYSTEM_BODIES"
proof (intro conjI)
  show "\<forall>b \<in> set SOLAR_SYSTEM_BODIES. \<forall>el. canonical_orbit b = Some el \<longrightarrow>
      0 < orb_a el \<and> 0 \<le> orb_e el \<and> orb_e el < 1"
    by (simp add: SOLAR_SYSTEM_BODIES_def)
  show "map (\<lambda>b. (body_id b, map_option orb_e (canonical_orbit b)))
      (filter (\<lambda>b. name b = ''Nereid'') SOLAR_SYSTEM_BODIES) = [(803, Some 0.751)]"
    by (simp add: SOLAR_SYSTEM_BODIES_def)
  show "\<forall>b \<in> set SOLAR_SYSTEM_BODIES. \<forall>el. canonical_orbit b = Some el \<longrightarrow> orb_e el \<le> 0.751"
    by (simp add: SOLAR_SYSTEM_BODIES_def)
  show "load SOLAR_SYSTEM_BODIES = Inr SOLAR_SYSTEM_BODIES"
    by (rule load_catalog)
qed

theorem orbits_in_range_witness:
  "map_option orb_e (canonical_orbit (SOLAR_SYSTEM_BODIES ! 41)) = Some 0.751
   \<and> map_option (\<lambda>el. 0 < orb_a el \<and> 0 \<le> orb_e el \<and> orb_e el < 1)
       (canonical_orbit (SOLAR_SYSTEM_BODIES ! 41)) = Some True"
proof -
  have m: "SOLAR_SYSTEM_BODIES ! 41 \<in> set SOLAR_SYSTEM_BODIES"
    by (simp add: body_at)
  have e: "map_option orb_e (canonical_orbit (SOLAR_SYSTEM_BODIES ! 41)) = Some 0.751"
    by (simp add: SOLAR_SYSTEM_BODIES_def)
  then obtain el where el: "canonical_orbit (SOLAR_SYSTEM_BODIES ! 41) = Some el"
    by auto
  have "0 < orb_a el \<and> 0 \<le> orb_e el \<and> orb_e el < 1"
    using orbits_in_range m el by blast
  then show ?thesis
    using e el by simp
qed

text \<open>
  C5. \<^verbatim>\<open>derive(designated_body_id, sibling_positions)\<close> is the negation of the vector sum
  of \<^verbatim>\<open>sibling_positions\<close>, whatever the designated body and the positions, so the
  derived position and the sibling positions together sum to the zero vector. On the
  catalog, for every epoch offset and every choice of gravitational parameters, the ten
  direct children of the root all resolve (the nine barycenters by propagation, their
  eccentricities being at most \<open>1/4\<close>, and the Sun by derivation from them), and their
  parent-relative positions sum to the zero vector.
\<close>

theorem derive_balances_siblings:
  "derive designated_body_id sibling_positions = vneg (vsum sibling_positions)
   \<and> vsum (derive designated_body_id sibling_positions # sibling_positions) = (0, 0, 0)
   \<and> (\<exists>ps qs. children_positions SOLAR_SYSTEM_BODIES gm dt = Inr (ps # qs)
        \<and> length qs = 9
        \<and> relative_position SOLAR_SYSTEM_BODIES gm dt (SOLAR_SYSTEM_BODIES ! 1) = Inr ps
        \<and> ps = derive 10 qs
        \<and> vsum (ps # qs) = (0, 0, 0))"
proof (intro conjI)
  show "derive designated_body_id sibling_positions = vneg (vsum sibling_positions)"
    by (simp add: derive_def)
  show balance: "vsum (derive d qs # qs) = (0, 0, 0)" for d qs
    by (simp add: derive_def vadd_vneg vsum_Cons)
  let ?sun = "SOLAR_SYSTEM_BODIES ! 1"
  let ?barys = "take 9 (drop 2 SOLAR_SYSTEM_BODIES)"
  have root: "root_body SOLAR_SYSTEM_BODIES = Some (SOLAR_SYSTEM_BODIES ! 0)"
    by (simp add: root_body_def SOLAR_SYSTEM_BODIES_def)
  have root_id: "body_id (SOLAR_SYSTEM_BODIES ! 0) = 0"
    by (simp add: body_at hierarchy_table)
  have sun: "parent ?sun = Some 0" "body_id ?sun = 10"
    by (simp_all add: body_at hierarchy_table)
  have sun_orbit: "canonical_orbit ?sun = None"
    by (simp add: SOLAR_SYSTEM_BODIES_def)
  have children: "filter (\<lambda>b. parent b = Some 0) SOLAR_SYSTEM_BODIES = ?sun # ?barys"
    by (simp add: SOLAR_SYSTEM_BODIES_def)
  have sibs: "filter (\<lambda>s. parent s = Some 0 \<and> body_id s \<noteq> 10) SOLAR_SYSTEM_BODIES = ?barys"
    by (simp add: SOLAR_SYSTEM_BODIES_def)
  have orbits: "\<forall>s \<in> set ?barys. \<exists>el. canonical_orbit s = Some el \<and> 0 \<le> orb_e el
      \<and> orb_e el \<le> 1 / 4"
    by (simp add: SOLAR_SYSTEM_BODIES_def)
  have "\<forall>s \<in> set ?barys. \<exists>v. propagated_position gm dt s = Inr v"
  proof
    fix s
    assume "s \<in> set ?barys"
    with orbits obtain el where el: "canonical_orbit s = Some el"
      and "0 \<le> orb_e el" and "orb_e el \<le> 1 / 4"
      by blast
    then obtain v where "propagate el (gm (body_id s)) dt = Inr v"
      using propagate_total by blast
    then have "propagated_position gm dt s = Inr v"
      by (simp add: propagated_position_def el)
    then show "\<exists>v. propagated_position gm dt s = Inr v"
      by (rule exI)
  qed
  then obtain qs where qs: "collect (map (propagated_position gm dt) ?barys) = Inr qs"
    and len: "length qs = length ?barys"
    using collect_all_results by blast
  have same: "map (relative_position SOLAR_SYSTEM_BODIES gm dt) ?barys =
      map (propagated_position gm dt) ?barys"
  proof (rule map_cong [OF refl])
    fix s
    assume "s \<in> set ?barys"
    with orbits obtain el where "canonical_orbit s = Some el"
      by blast
    then show "relative_position SOLAR_SYSTEM_BODIES gm dt s = propagated_position gm dt s"
      by (simp add: relative_position_def propagated_position_def)
  qed
  have sun_sibs: "siblings SOLAR_SYSTEM_BODIES ?sun = ?barys"
    unfolding siblings_def sun by (rule sibs)
  have sun_pos: "relative_position SOLAR_SYSTEM_BODIES gm dt ?sun = Inr (derive 10 qs)"
    by (simp only: relative_position_def sun_orbit sun root root_id sun_sibs qs
        option.case option.map if_True sum.case refl)
  have "children_positions SOLAR_SYSTEM_BODIES gm dt =
      collect (map (relative_position SOLAR_SYSTEM_BODIES gm dt) (?sun # ?barys))"
    by (simp only: children_positions_def root option.case root_id children)
  also have "\<dots> = Inr (derive 10 qs # qs)"
    by (simp only: list.map collect.simps sun_pos same qs sum.case)
  finally have all: "children_positions SOLAR_SYSTEM_BODIES gm dt = Inr (derive 10 qs # qs)" .
  have "length qs = 9"
    using len by (simp add: bodies_length)
  with all sun_pos balance
  show "\<exists>ps qs. children_positions SOLAR_SYSTEM_BODIES gm dt = Inr (ps # qs)
        \<and> length qs = 9
        \<and> relative_position SOLAR_SYSTEM_BODIES gm dt (SOLAR_SYSTEM_BODIES ! 1) = Inr ps
        \<and> ps = derive 10 qs
        \<and> vsum (ps # qs) = (0, 0, 0)"
    by blast
qed




text \<open>
  C7. With \<open>e = 0\<close> the Kepler solve is short-circuited: the eccentric anomaly is the
  normalised mean anomaly \<open>M\<close> itself, with no iteration, for every semi-major axis,
  gravitational parameter and \<open>dt\<close>. The true anomaly, the angle of the position from
  periapsis, is then \<open>M\<close>, which lies in \<open>[0, 2\<pi>)\<close>, and the position returned is the
  point at angle \<open>M\<close> and radius \<open>a\<close> of the orbital plane, rotated into the parent frame.
\<close>

theorem circular_orbit_angle:
  assumes "orb_e el = 0"
  shows "solve_kepler (orb_e el) (mean_anomaly el gm dt) = Inr (mean_anomaly el gm dt, 0)
   \<and> true_anomaly (orb_e el) (mean_anomaly el gm dt) = mean_anomaly el gm dt
   \<and> 0 \<le> mean_anomaly el gm dt \<and> mean_anomaly el gm dt < 2 * pi
   \<and> propagate el gm dt =
       Inr (to_parent_frame el
         (orb_a el * cos (mean_anomaly el gm dt), orb_a el * sin (mean_anomaly el gm dt), 0))"
proof -
  let ?M = "mean_anomaly el gm dt"
  have s: "solve_kepler (orb_e el) ?M = Inr (?M, 0)"
    using assms by (simp add: solve_kepler_def)
  have r: "0 \<le> ?M \<and> ?M < 2 * pi"
    by (rule mean_anomaly_range)
  then have t: "true_anomaly (orb_e el) ?M = ?M"
    using assms by (simp add: true_anomaly_circular)
  have "propagate el gm dt = Inr (position_at el ?M)"
    by (simp add: propagate_def s)
  moreover have "position_at el ?M = to_parent_frame el (orb_a el * cos ?M, orb_a el * sin ?M, 0)"
    using assms t by (simp add: position_at_def orbit_radius_def Let_def)
  ultimately show ?thesis
    using s r t by simp
qed

theorem circular_orbit_angle_witness:
  "orb_e \<lparr>orb_a = 354800.0, orb_e = 0.000, orb_i = 157.3,
         orb_Omega = 178.1, orb_omega = 0.0, orb_M0 = 63.0\<rparr> = 0
   \<and> solve_kepler 0
       (mean_anomaly \<lparr>orb_a = 354800.0, orb_e = 0.000, orb_i = 157.3,
         orb_Omega = 178.1, orb_omega = 0.0, orb_M0 = 63.0\<rparr> 6835103.1 86400) =
     Inr (mean_anomaly \<lparr>orb_a = 354800.0, orb_e = 0.000, orb_i = 157.3,
         orb_Omega = 178.1, orb_omega = 0.0, orb_M0 = 63.0\<rparr> 6835103.1 86400, 0)
   \<and> true_anomaly 0
       (mean_anomaly \<lparr>orb_a = 354800.0, orb_e = 0.000, orb_i = 157.3,
         orb_Omega = 178.1, orb_omega = 0.0, orb_M0 = 63.0\<rparr> 6835103.1 86400) =
     mean_anomaly \<lparr>orb_a = 354800.0, orb_e = 0.000, orb_i = 157.3,
         orb_Omega = 178.1, orb_omega = 0.0, orb_M0 = 63.0\<rparr> 6835103.1 86400"
  using circular_orbit_angle
    [of "\<lparr>orb_a = 354800.0, orb_e = 0.000, orb_i = 157.3,
         orb_Omega = 178.1, orb_omega = 0.0, orb_M0 = 63.0\<rparr>" "6835103.1" "86400"]
  by simp

text \<open>
  C8. The four named constants of the module have these values: \<^verbatim>\<open>SECONDS_PER_DAY\<close> is
  86400.0, \<^verbatim>\<open>DEFAULT_EPOCH\<close> is the string \<^verbatim>\<open>2025-05-11T00:00:00\<close>,
  \<^verbatim>\<open>DEFAULT_FRAME\<close> is \<^verbatim>\<open>ECLIPJ2000\<close> and \<^verbatim>\<open>DEFAULT_DRAG_CUTOFF\<close>, written
  \<^verbatim>\<open>500e3\<close>, is 500000.0. Each is a literal; none is computed from the catalog.
\<close>

theorem named_constants:
  "SECONDS_PER_DAY = 86400
   \<and> DEFAULT_EPOCH = ''2025-05-11T00:00:00''
   \<and> DEFAULT_FRAME = ''ECLIPJ2000''
   \<and> DEFAULT_DRAG_CUTOFF = 500000"
  by (simp add: SECONDS_PER_DAY_def DEFAULT_EPOCH_def DEFAULT_FRAME_def DEFAULT_DRAG_CUTOFF_def)

text \<open>
  C9. \<^verbatim>\<open>DEFAULT_BODIES\<close> is the list of the ids of all records except the root, id 0, in
  catalog order. The disjunct \<^verbatim>\<open>body.get("id") == 10\<close> of the comprehension admits
  nothing more, the Sun having parent 0: the list is the same without it. As a set,
  \<^verbatim>\<open>DEFAULT_BODIES\<close> is the key set of \<^verbatim>\<open>PARENT_MAP\<close>.
\<close>

theorem default_bodies:
  "DEFAULT_BODIES =
     [10, 1, 2, 3, 4, 5, 6, 7, 8, 9, 199, 299, 399, 499, 599, 699, 799, 899, 999, 301, 401,
      402, 501, 502, 503, 504, 601, 602, 603, 604, 605, 606, 608, 701, 702, 703, 704, 705, 801,
      802, 803, 901, 902, 903, 904, 905]
   \<and> DEFAULT_BODIES = map body_id (filter (\<lambda>b. body_id b \<noteq> 0) SOLAR_SYSTEM_BODIES)
   \<and> DEFAULT_BODIES = [body_id body. body \<leftarrow> SOLAR_SYSTEM_BODIES, parent body \<noteq> None]
   \<and> parent (SOLAR_SYSTEM_BODIES ! 1) = Some 0
   \<and> body_id (SOLAR_SYSTEM_BODIES ! 1) = 10
   \<and> set DEFAULT_BODIES = dom PARENT_MAP"
proof -
  have comprehension: "[body_id body. body \<leftarrow> bodies, P body] = map body_id (filter P bodies)"
    for bodies :: "body list" and P
    by (induction bodies) simp_all
  have d: "DEFAULT_BODIES =
      map body_id (filter (\<lambda>b. parent b \<noteq> None \<or> body_id b = 10) SOLAR_SYSTEM_BODIES)"
    unfolding DEFAULT_BODIES_def by (rule comprehension)
  have l: "DEFAULT_BODIES =
     [10, 1, 2, 3, 4, 5, 6, 7, 8, 9, 199, 299, 399, 499, 599, 699, 799, 899, 999, 301, 401,
      402, 501, 502, 503, 504, 601, 602, 603, 604, 605, 606, 608, 701, 702, 703, 704, 705, 801,
      802, 803, 901, 902, 903, 904, 905]"
    unfolding d id_filter_ids [of "\<lambda>i p. p \<noteq> None \<or> i = 10"] hierarchy_table by simp
  have n: "map body_id (filter (\<lambda>b. body_id b \<noteq> 0) SOLAR_SYSTEM_BODIES) = DEFAULT_BODIES"
    unfolding l id_filter_ids [of "\<lambda>i p. i \<noteq> 0"] hierarchy_table by simp
  have p: "map body_id (filter (\<lambda>b. parent b \<noteq> None) SOLAR_SYSTEM_BODIES) = DEFAULT_BODIES"
    unfolding l parent_filter_ids [of "\<lambda>p. p \<noteq> None"] hierarchy_table by simp
  have s: "parent (SOLAR_SYSTEM_BODIES ! 1) = Some 0 \<and> body_id (SOLAR_SYSTEM_BODIES ! 1) = 10"
    by (simp add: body_at hierarchy_table)
  have k: "set DEFAULT_BODIES = dom PARENT_MAP"
    unfolding PARENT_MAP_def dom_PARENT_MAP_of p ..
  show ?thesis
    using l n p s k by (simp only: comprehension simp_thms)
qed

theorem default_bodies_witness:
  "DEFAULT_BODIES ! 0 = 10
   \<and> length DEFAULT_BODIES = 46
   \<and> 0 \<notin> set DEFAULT_BODIES
   \<and> 10 \<in> dom PARENT_MAP"
proof -
  have l: "DEFAULT_BODIES =
     [10, 1, 2, 3, 4, 5, 6, 7, 8, 9, 199, 299, 399, 499, 599, 699, 799, 899, 999, 301, 401,
      402, 501, 502, 503, 504, 601, 602, 603, 604, 605, 606, 608, 701, 702, 703, 704, 705, 801,
      802, 803, 901, 902, 903, 904, 905]"
    and k: "set DEFAULT_BODIES = dom PARENT_MAP"
    using default_bodies by (simp_all only:)
  have "10 \<in> set DEFAULT_BODIES"
    unfolding l by simp
  then have "10 \<in> dom PARENT_MAP"
    unfolding k .
  then show ?thesis
    unfolding l by simp
qed

text \<open>
  C10. Every record of \<^verbatim>\<open>SOLAR_SYSTEM_BODIES\<close> has the key \<^verbatim>\<open>streamed\<close> with a
  boolean value. The value is \<^verbatim>\<open>False\<close> for the root, id 0, and for no other body;
  every other body, the Sun included, has \<^verbatim>\<open>streamed = True\<close>.
\<close>

theorem streamed_flags:
  "(\<forall>b \<in> set SOLAR_SYSTEM_BODIES. streamed b \<noteq> None)
   \<and> map body_id (filter (\<lambda>b. streamed b = Some False) SOLAR_SYSTEM_BODIES) = [0]
   \<and> (\<forall>b \<in> set SOLAR_SYSTEM_BODIES. body_id b \<noteq> 0 \<longrightarrow> streamed b = Some True)
   \<and> map (\<lambda>b. (body_id b, streamed b)) (filter (\<lambda>b. name b = ''Sun'') SOLAR_SYSTEM_BODIES) =
       [(10, Some True)]"
proof (intro conjI)
  show "\<forall>b \<in> set SOLAR_SYSTEM_BODIES. streamed b \<noteq> None"
    by (auto simp: SOLAR_SYSTEM_BODIES_def)
  show "map body_id (filter (\<lambda>b. streamed b = Some False) SOLAR_SYSTEM_BODIES) = [0]"
    by (simp add: SOLAR_SYSTEM_BODIES_def)
  show "\<forall>b \<in> set SOLAR_SYSTEM_BODIES. body_id b \<noteq> 0 \<longrightarrow> streamed b = Some True"
    by (simp add: SOLAR_SYSTEM_BODIES_def)
  show "map (\<lambda>b. (body_id b, streamed b)) (filter (\<lambda>b. name b = ''Sun'') SOLAR_SYSTEM_BODIES) =
      [(10, Some True)]"
    by (simp add: SOLAR_SYSTEM_BODIES_def)
qed

theorem streamed_flags_witness:
  "body_id (SOLAR_SYSTEM_BODIES ! 1) \<noteq> 0
   \<and> streamed (SOLAR_SYSTEM_BODIES ! 1) \<noteq> None
   \<and> streamed (SOLAR_SYSTEM_BODIES ! 1) = Some True"
proof -
  have m: "SOLAR_SYSTEM_BODIES ! 1 \<in> set SOLAR_SYSTEM_BODIES"
    by (simp add: body_at)
  have i: "body_id (SOLAR_SYSTEM_BODIES ! 1) \<noteq> 0"
    by (simp add: body_at hierarchy_table)
  show ?thesis
    using streamed_flags m i by auto
qed

end
